theory Spec2Isabelle
  imports Complex_Main "HOL-Library.AList"
begin

section \<open>Data model of the rundown watcher\<close>

text \<open>
  The embedding follows the class \<open>RundownWatcher\<close> (the watcher with playlists, a
  processing mutex and \<open>ResyncRundown\<close>). Identifiers are strings, as in the source.
  A JavaScript \<open>Map\<close> that is only read by key and written by key is a HOL map; a
  \<open>Map\<close> or \<open>Set\<close> whose iteration order is observed is a list in insertion order.
  Ranks are JavaScript numbers that the watcher only passes on or replaces by \<open>0\<close>;
  they are rationals here. Timestamps (\<open>Date\<close>, \<open>Date.now()\<close>) are integers.
\<close>

type_synonym PlaylistId = string
type_synonym RundownId = string
type_synonym SegmentId = string

text \<open>The story payload is opaque to the watcher except for \<open>meta.float\<close>, read as \<open>!!float\<close>.\<close>

record INewsStory =
  meta_float :: bool
  story_content :: string

text \<open>\<open>ReducedSegment = Pick<ISegment, externalId | modified | rank | name | locator>\<close>\<close>

record ReducedSegment =
  rs_externalId :: SegmentId
  rs_modified :: int
  rs_rank :: rat
  rs_name :: string
  rs_locator :: string

text \<open>\<open>ReducedRundown\<close>: the listing that \<open>downloadRundown\<close> returns for a queue.\<close>

record ReducedRundown =
  rr_externalId :: string
  rr_name :: string
  rr_gatewayVersion :: string
  rr_segments :: "ReducedSegment list"

text \<open>\<open>UnrankedSegment = Omit<ISegment, rank | float>\<close>\<close>

record UnrankedSegment =
  us_rundownId :: string
  us_iNewsStory :: INewsStory
  us_modified :: int
  us_locator :: string
  us_externalId :: SegmentId
  us_name :: string

text \<open>The class \<open>RundownSegment\<close>, with the fields its constructor call sets.\<close>

record RundownSegment =
  sg_rundownId :: RundownId
  sg_iNewsStory :: INewsStory
  sg_modified :: int
  sg_locator :: string
  sg_externalId :: SegmentId
  sg_rank :: rat
  sg_name :: string

text \<open>One element of a \<open>ResolvedPlaylist\<close>: \<open>{ rundownId, segments, backTime? }\<close>.\<close>

record ResolvedRundown =
  pa_rundownId :: RundownId
  pa_segments :: "SegmentId list"
  pa_backTime :: "string option"

type_synonym ResolvedPlaylist = "ResolvedRundown list"

text \<open>The class \<open>INewsRundown(externalId, name, gatewayVersion, segments, backTime)\<close>.\<close>

record INewsRundown =
  nr_externalId :: RundownId
  nr_name :: string
  nr_gatewayVersion :: string
  nr_segments :: "RundownSegment list"
  nr_backTime :: "string option"

text \<open>The payload \<open>MutatedSegment\<close> and the \<open>IngestSegment\<close> built by \<open>inewsToIngestSegment\<close>.\<close>

record MutatedSegment =
  ms_modified :: int
  ms_locator :: string
  ms_rundownId :: RundownId
  ms_iNewsStory :: INewsStory
  ms_float :: bool

record IngestSegment =
  is_externalId :: SegmentId
  is_name :: string
  is_rank :: rat
  is_parts :: "unit list"
  is_payload :: MutatedSegment

text \<open>The constant \<open>INGEST_RUNDOWN_TYPE\<close> is imported by the source; it stays symbolic.\<close>

datatype IngestType = INGEST_RUNDOWN_TYPE

record IngestRundownPayload =
  rp_playlistExternalId :: PlaylistId
  rp_backTime :: "string option"

record IngestRundown =
  ir_externalId :: RundownId
  ir_name :: string
  ir_type :: IngestType
  ir_segments :: "IngestSegment list"
  ir_payload :: IngestRundownPayload

text \<open>\<open>SegmentRankingsInner = { rank }\<close>; \<open>SegmentRankings\<close> maps rundown to segment to it.\<close>

record SegmentRankingsInner =
  sr_rank :: rat

type_synonym SegmentRankings = "RundownId \<rightharpoonup> (SegmentId \<rightharpoonup> SegmentRankingsInner)"

text \<open>
  The change list of \<open>DiffPlaylist\<close>: a union tagged by \<open>PlaylistChangeType\<close>. Every
  change has \<open>rundownExternalId\<close>; the segment changes also have \<open>segmentExternalId\<close>.
\<close>

datatype PlaylistChange =
    PlaylistChangeRundownCreated (rundownExternalId: RundownId)
  | PlaylistChangeRundownDeleted (rundownExternalId: RundownId)
  | PlaylistChangeRundownUpdated (rundownExternalId: RundownId)
  | PlaylistChangeSegmentChanged (rundownExternalId: RundownId) (segmentExternalId: SegmentId)
  | PlaylistChangeSegmentCreated (rundownExternalId: RundownId) (segmentExternalId: SegmentId)
  | PlaylistChangeSegmentDeleted (rundownExternalId: RundownId) (segmentExternalId: SegmentId)
  | PlaylistChangeSegmentMoved (rundownExternalId: RundownId) (segmentExternalId: SegmentId)

datatype PlaylistChangeType =
    RundownCreated | RundownDeleted | RundownUpdated
  | SegmentChanged | SegmentCreated | SegmentDeleted | SegmentMoved

fun change_type :: "PlaylistChange \<Rightarrow> PlaylistChangeType" where
  "change_type (PlaylistChangeRundownCreated _) = RundownCreated"
| "change_type (PlaylistChangeRundownDeleted _) = RundownDeleted"
| "change_type (PlaylistChangeRundownUpdated _) = RundownUpdated"
| "change_type (PlaylistChangeSegmentChanged _ _) = SegmentChanged"
| "change_type (PlaylistChangeSegmentCreated _ _) = SegmentCreated"
| "change_type (PlaylistChangeSegmentDeleted _ _) = SegmentDeleted"
| "change_type (PlaylistChangeSegmentMoved _ _) = SegmentMoved"

text \<open>One element of the result of \<open>AssignRanksToSegments\<close>.\<close>

record RankedRundown =
  ar_rundownId :: RundownId
  ar_assignedRanks :: "SegmentId \<rightharpoonup> rat"
  ar_recalculatedAsIntegers :: bool

subsection \<open>Effects\<close>

text \<open>The events of the watcher's \<open>emit\<close> overloads that carry rundown data.\<close>

datatype event =
    rundown_delete RundownId
  | rundown_create RundownId IngestRundown
  | rundown_update RundownId IngestRundown
  | segment_delete RundownId SegmentId
  | segment_create RundownId SegmentId IngestSegment
  | segment_update RundownId SegmentId IngestSegment
  | segment_ranks_update RundownId "(SegmentId \<times> rat) list"

datatype log_level = LogDebug | LogInfo | LogError

datatype StatusCode = GOOD | WARNING_MINOR | WARNING_MAJOR

datatype js_error = JsError string

text \<open>
  Everything a call does to the outside, in the order it happens: an emitted event, a
  logger call, a request to the NRCS client or to the control plane.
\<close>

datatype effect =
    Emit event
  | Log log_level string
  | Call_fetchINewsStoriesById PlaylistId "SegmentId list"
  | Call_GetSegmentsCacheById RundownId "SegmentId list"
  | Call_setStatus StatusCode "string list"

fun events_of :: "effect list \<Rightarrow> event list" where
  "events_of [] = []"
| "events_of (Emit e # tr) = e # events_of tr"
| "events_of (_ # tr) = events_of tr"

fun statuses_of :: "effect list \<Rightarrow> (StatusCode \<times> string list) list" where
  "statuses_of [] = []"
| "statuses_of (Call_setStatus c ms # tr) = (c, ms) # statuses_of tr"
| "statuses_of (_ # tr) = statuses_of tr"

fun core_cache_requests :: "effect list \<Rightarrow> (RundownId \<times> SegmentId list) list" where
  "core_cache_requests [] = []"
| "core_cache_requests (Call_GetSegmentsCacheById r ids # tr) = (r, ids) # core_cache_requests tr"
| "core_cache_requests (_ # tr) = core_cache_requests tr"

fun story_requests :: "effect list \<Rightarrow> (PlaylistId \<times> SegmentId list) list" where
  "story_requests [] = []"
| "story_requests (Call_fetchINewsStoriesById p ids # tr) = (p, ids) # story_requests tr"
| "story_requests (_ # tr) = story_requests tr"

subsection \<open>The watcher's fields and its collaborators\<close>

record RundownWatcher =
  previousRanks :: SegmentRankings
  lastForcedRankRecalculation :: "RundownId \<rightharpoonup> int"
  cachedINewsData :: "SegmentId \<rightharpoonup> UnrankedSegment"
  cachedPlaylistAssignments :: "PlaylistId \<rightharpoonup> ResolvedPlaylist"
  cachedAssignedRundowns :: "PlaylistId \<rightharpoonup> INewsRundown list"
  skipCacheForRundown :: "RundownId set"
  playlists :: "PlaylistId \<rightharpoonup> RundownId list"
  rundowns :: "RundownId \<rightharpoonup> SegmentId list"
  segments :: "SegmentId \<rightharpoonup> ReducedSegment"

text \<open>
  What the watcher is constructed with and what it calls but does not define: the
  configured version, the handler's connection flag, the NRCS client
  (\<open>downloadRundown\<close>, \<open>fetchINewsStoriesById\<close>, \<open>queueLength\<close>), the control plane
  (\<open>GetSegmentsCacheById\<close>), the helpers \<open>ResolveRundownIntoPlaylist\<close>, \<open>DiffPlaylist\<close>
  and \<open>AssignRanksToSegments\<close>, and the clock. A rejected promise is \<open>Inl\<close>. The type
  \<open>'sc\<close> is that of \<open>segmentChanges\<close>, which the watcher hands from the differ to the
  ranker unread.
\<close>

record 'sc Collaborators =
  gatewayVersion :: string
  isConnected :: bool
  queueLength :: nat
  dateNow :: int
  downloadRundown :: "string \<Rightarrow> js_error + ReducedRundown"
  fetchINewsStoriesById :: "PlaylistId \<Rightarrow> SegmentId list \<Rightarrow> js_error + (SegmentId \<rightharpoonup> UnrankedSegment)"
  GetSegmentsCacheById :: "RundownId \<Rightarrow> SegmentId list \<Rightarrow> js_error + (SegmentId \<rightharpoonup> RundownSegment)"
  ResolveRundownIntoPlaylist :: "PlaylistId \<Rightarrow> UnrankedSegment list \<Rightarrow> ResolvedPlaylist"
  DiffPlaylist :: "INewsRundown list \<Rightarrow> INewsRundown list \<Rightarrow> PlaylistChange list \<times> 'sc"
  AssignRanksToSegments :: "ResolvedPlaylist \<Rightarrow> PlaylistChange list \<Rightarrow> 'sc \<Rightarrow> SegmentRankings
     \<Rightarrow> (RundownId \<rightharpoonup> int) \<Rightarrow> RankedRundown list"

section \<open>ResyncRundown\<close>

text \<open>
  \<open>rundownExternalId.replace(/_\d+$/, '')\<close>: the match is an underscore followed by one
  or more decimal digits that reach the end of the string. Digits contain no underscore,
  so there is at most one place where it can start.
\<close>

definition is_digit :: "char \<Rightarrow> bool" where
  "is_digit c = (c \<in> set ''0123456789'')"

definition strip_ordinal :: "string \<Rightarrow> string" where
  "strip_ordinal s =
     (let r = rev s; ds = takeWhile is_digit r in
      case dropWhile is_digit r of
        [] \<Rightarrow> s
      | c # p \<Rightarrow> if ds \<noteq> [] \<and> c = CHR ''_'' then rev p else s)"

text \<open>\<open>for (const k of ks) m.delete(k)\<close>\<close>

definition delete_all :: "'k list \<Rightarrow> ('k \<rightharpoonup> 'v) \<Rightarrow> ('k \<rightharpoonup> 'v)" where
  "delete_all ks m = fold (\<lambda>k m'. m'(k := None)) ks m"

definition ResyncRundown :: "RundownWatcher \<Rightarrow> string \<Rightarrow> effect list \<times> RundownWatcher" where
  "ResyncRundown w rundownExtId =
     (let playlistExtId = strip_ordinal rundownExtId in
      case playlists w playlistExtId of
        None \<Rightarrow>
          ([Log LogError (''Rundown '' @ rundownExtId @ '' does not exist in playlist ''
              @ playlistExtId)], w)
      | Some playlist \<Rightarrow>
         (case rundowns w rundownExtId of
            None \<Rightarrow>
              ([Log LogError (''Rundown '' @ rundownExtId @ '' does not exist in playlist ''
                  @ playlistExtId)], w)
          | Some rundown \<Rightarrow>
              ([], w\<lparr>
                 segments := delete_all rundown (segments w),
                 cachedINewsData := delete_all rundown (cachedINewsData w),
                 rundowns := (rundowns w)(rundownExtId := None),
                 playlists := (playlists w)(playlistExtId \<mapsto>
                     filter (\<lambda>r. r \<noteq> rundownExtId) playlist),
                 cachedPlaylistAssignments :=
                   (case cachedPlaylistAssignments w playlistExtId of
                      None \<Rightarrow> cachedPlaylistAssignments w
                    | Some cachedPlaylist \<Rightarrow> (cachedPlaylistAssignments w)(playlistExtId \<mapsto>
                        filter (\<lambda>p. pa_rundownId p \<noteq> rundownExtId) cachedPlaylist)),
                 lastForcedRankRecalculation :=
                   (lastForcedRankRecalculation w)(rundownExtId := None),
                 skipCacheForRundown := insert rundownExtId (skipCacheForRundown w)\<rparr>)))"

section \<open>processUpdatedRundown\<close>

subsection \<open>Which stories to fetch\<close>

text \<open>\<open>Set.prototype.add\<close> on a set kept in insertion order.\<close>

definition set_add :: "'a \<Rightarrow> 'a list \<Rightarrow> 'a list" where
  "set_add x xs = (if x \<in> set xs then xs else xs @ [x])"

text \<open>
  The local \<open>uncachedINewsData\<close> when the story request is made: first the listed
  segments that \<open>cachedINewsData\<close> lacks, then, only if \<open>playlists\<close> has the playlist,
  the listed segments that \<open>segments\<close> lacks or holds with another locator. (The local
  \<open>cachedRundowns\<close> built in the same branch is never read.)
\<close>

definition uncachedINewsData :: "RundownWatcher \<Rightarrow> PlaylistId \<Rightarrow> ReducedRundown \<Rightarrow> SegmentId list" where
  "uncachedINewsData w playlistId playlist =
     (let uncached =
            foldl (\<lambda>acc s. if cachedINewsData w (rs_externalId s) = None
                            then set_add (rs_externalId s) acc else acc)
              [] (rr_segments playlist)
      in case playlists w playlistId of
           None \<Rightarrow> uncached
         | Some cachedPlaylist \<Rightarrow>
             foldl (\<lambda>acc segment.
                      case segments w (rs_externalId segment) of
                        None \<Rightarrow> set_add (rs_externalId segment) acc
                      | Some cachedSegment \<Rightarrow>
                          if rs_locator cachedSegment \<noteq> rs_locator segment
                          then set_add (rs_externalId segment) acc else acc)
               uncached (rr_segments playlist))"

subsection \<open>Resolving the playlist\<close>

definition segmentsToResolve :: "(SegmentId \<rightharpoonup> UnrankedSegment) \<Rightarrow> ReducedRundown \<Rightarrow> UnrankedSegment list" where
  "segmentsToResolve cache playlist =
     List.map_filter (\<lambda>s. cache (rs_externalId s)) (rr_segments playlist)"

definition segmentsToResolve_log :: "(SegmentId \<rightharpoonup> UnrankedSegment) \<Rightarrow> PlaylistId \<Rightarrow> ReducedRundown \<Rightarrow> effect list" where
  "segmentsToResolve_log cache playlistId playlist =
     concat (map (\<lambda>s. if cache (rs_externalId s) = None
                       then [Log LogError (''Could not find iNews data for segment '' @ rs_externalId s
                               @ '' in rundown '' @ playlistId @ ''. Segment will appear out of order.'')]
                       else [])
               (rr_segments playlist))"

text \<open>\<open>ResolveRundownIntoPlaylist\<close>, then the push of the empty rundown \<open>${playlistId}_1\<close>.\<close>

definition resolvePlaylistAssignments :: "'sc Collaborators \<Rightarrow> PlaylistId \<Rightarrow> UnrankedSegment list \<Rightarrow> ResolvedPlaylist" where
  "resolvePlaylistAssignments env playlistId toResolve =
     (let playlistAssignments = ResolveRundownIntoPlaylist env playlistId toResolve in
      if length playlistAssignments = 0
      then playlistAssignments @
             [\<lparr>pa_rundownId = playlistId @ ''_1'', pa_segments = [], pa_backTime = None\<rparr>]
      else playlistAssignments)"

subsection \<open>The control-plane cache\<close>

text \<open>
  The loop over \<open>playlistAssignments\<close> that consumes \<open>skipCacheForRundown\<close> and collects
  the calls \<open>GetSegmentsCacheById(rundownId, segmentsToFetch)\<close>. It returns the calls
  in order and the set that is left.
\<close>

fun ingestCacheRequests :: "RundownId set \<Rightarrow> SegmentId list \<Rightarrow> ResolvedPlaylist
    \<Rightarrow> (RundownId \<times> SegmentId list) list \<times> RundownId set" where
  "ingestCacheRequests skip uncached [] = ([], skip)"
| "ingestCacheRequests skip uncached (rundown # rest) =
     (if pa_rundownId rundown \<in> skip
      then ingestCacheRequests (skip - {pa_rundownId rundown}) uncached rest
      else (let segmentsToFetch = filter (\<lambda>segmentId. segmentId \<in> set uncached) (pa_segments rundown);
                (reqs, skip') = ingestCacheRequests skip uncached rest
            in ((pa_rundownId rundown, segmentsToFetch) # reqs, skip')))"

text \<open>\<open>await Promise.all(ps)\<close>: the values in order, or a rejection (the first in the list).\<close>

fun await_all :: "('e + 'a) list \<Rightarrow> 'e + 'a list" where
  "await_all [] = Inr []"
| "await_all (Inl e # ps) = Inl e"
| "await_all (Inr x # ps) = (case await_all ps of Inl e \<Rightarrow> Inl e | Inr xs \<Rightarrow> Inr (x # xs))"

definition merge_caches :: "('k \<rightharpoonup> 'v) list \<Rightarrow> ('k \<rightharpoonup> 'v)" where
  "merge_caches caches = foldl (\<lambda>acc cache. acc ++ cache) Map.empty caches"

subsection \<open>The rundowns handed to the differ\<close>

definition rundownSegments :: "(SegmentId \<rightharpoonup> UnrankedSegment) \<Rightarrow> ResolvedRundown \<Rightarrow> RundownSegment list" where
  "rundownSegments cache playlistRundown =
     List.map_filter
       (\<lambda>segmentId. case cache segmentId of
            None \<Rightarrow> None
          | Some iNewsData \<Rightarrow> Some
              \<lparr>sg_rundownId = pa_rundownId playlistRundown,
               sg_iNewsStory = us_iNewsStory iNewsData,
               sg_modified = us_modified iNewsData,
               sg_locator = us_locator iNewsData,
               sg_externalId = segmentId,
               sg_rank = 0,
               sg_name = us_name iNewsData\<rparr>)
       (pa_segments playlistRundown)"

definition assignedRundowns :: "string \<Rightarrow> (SegmentId \<rightharpoonup> UnrankedSegment) \<Rightarrow> ResolvedPlaylist \<Rightarrow> INewsRundown list" where
  "assignedRundowns version cache playlistAssignments =
     map (\<lambda>playlistRundown.
            \<lparr>nr_externalId = pa_rundownId playlistRundown,
             nr_name = pa_rundownId playlistRundown,
             nr_gatewayVersion = version,
             nr_segments = rundownSegments cache playlistRundown,
             nr_backTime = pa_backTime playlistRundown\<rparr>)
       playlistAssignments"

definition assignedRundowns_log :: "(SegmentId \<rightharpoonup> UnrankedSegment) \<Rightarrow> ResolvedPlaylist \<Rightarrow> effect list" where
  "assignedRundowns_log cache playlistAssignments =
     concat (map (\<lambda>playlistRundown.
        concat (map (\<lambda>segmentId. if cache segmentId = None
                       then [Log LogError (''Failed to assign segment '' @ segmentId @ '' to rundown ''
                               @ pa_rundownId playlistRundown @ ''. Could not find cached iNews data'')]
                       else [])
                  (pa_segments playlistRundown)))
       playlistAssignments)"

subsection \<open>Ranks\<close>

text \<open>The loop over the result of \<open>AssignRanksToSegments\<close>.\<close>

definition assignedRanksOf :: "RankedRundown list \<Rightarrow> (SegmentId \<rightharpoonup> rat)" where
  "assignedRanksOf segmentRanks = foldl (\<lambda>acc rundown. acc ++ ar_assignedRanks rundown) Map.empty segmentRanks"

definition updatePreviousRanks :: "RundownId \<Rightarrow> (SegmentId \<rightharpoonup> rat) \<Rightarrow> SegmentRankings \<Rightarrow> SegmentRankings" where
  "updatePreviousRanks rundownId ranks previous =
     previous(rundownId \<mapsto> (\<lambda>segmentId. map_option (\<lambda>r. \<lparr>sr_rank = r\<rparr>) (ranks segmentId)))"

definition recordRanks :: "int \<Rightarrow> RankedRundown list \<Rightarrow> RundownWatcher \<Rightarrow> RundownWatcher" where
  "recordRanks now segmentRanks w =
     foldl (\<lambda>w' rundown.
              w'\<lparr>lastForcedRankRecalculation :=
                   (if ar_recalculatedAsIntegers rundown
                    then (lastForcedRankRecalculation w')(ar_rundownId rundown \<mapsto> now)
                    else lastForcedRankRecalculation w'),
                 previousRanks :=
                   updatePreviousRanks (ar_rundownId rundown) (ar_assignedRanks rundown) (previousRanks w')\<rparr>)
       w segmentRanks"

subsection \<open>Building ingest data\<close>

definition inewsToIngestSegment :: "RundownId \<Rightarrow> SegmentId \<Rightarrow> UnrankedSegment \<Rightarrow> rat \<Rightarrow> IngestSegment" where
  "inewsToIngestSegment rundownId segmentId inews rank =
     \<lparr>is_externalId = segmentId,
      is_name = us_name inews,
      is_rank = rank,
      is_parts = [],
      is_payload =
        \<lparr>ms_modified = us_modified inews,
         ms_locator = us_locator inews,
         ms_rundownId = rundownId,
         ms_iNewsStory = us_iNewsStory inews,
         ms_float = meta_float (us_iNewsStory inews)\<rparr>\<rparr>"

text \<open>
  \<open>playlistRundownToIngestRundown\<close>: a segment without iNews data or without a rank is
  dropped from the rundown. (\<open>!rank\<close> also holds for the rank \<open>0\<close>, which is only logged.)
\<close>

definition playlistRundownToIngestRundown :: "PlaylistId \<Rightarrow> RundownId \<Rightarrow> SegmentId list
    \<Rightarrow> (SegmentId \<rightharpoonup> UnrankedSegment) \<Rightarrow> (SegmentId \<rightharpoonup> rat) \<Rightarrow> string option \<Rightarrow> IngestRundown" where
  "playlistRundownToIngestRundown playlistId rundownId segs inewsCache ranks backTime =
     \<lparr>ir_externalId = rundownId,
      ir_name = playlistId,
      ir_type = INGEST_RUNDOWN_TYPE,
      ir_segments =
        List.map_filter
          (\<lambda>segmentId. case inewsCache segmentId of
               None \<Rightarrow> None
             | Some inews \<Rightarrow> (case ranks segmentId of
                  None \<Rightarrow> None
                | Some rank \<Rightarrow> Some (inewsToIngestSegment rundownId segmentId inews rank)))
          segs,
      ir_payload = \<lparr>rp_playlistExternalId = playlistId, rp_backTime = backTime\<rparr>\<rparr>"

definition playlistRundownToIngestRundown_log :: "RundownId \<Rightarrow> SegmentId list
    \<Rightarrow> (SegmentId \<rightharpoonup> UnrankedSegment) \<Rightarrow> (SegmentId \<rightharpoonup> rat) \<Rightarrow> effect list" where
  "playlistRundownToIngestRundown_log rundownId segs inewsCache ranks =
     concat (map (\<lambda>segmentId.
         (if inewsCache segmentId = None
          then [Log LogError (''No iNews data for '' @ segmentId)] else [])
       @ (if ranks segmentId = None \<or> ranks segmentId = Some 0
          then [Log LogError (''No rank data for '' @ segmentId)] else [])
       @ (if inewsCache segmentId = None \<or> ranks segmentId = None
          then [Log LogError (''Dropping segment '' @ segmentId @ '' from rundown '' @ rundownId)]
          else []))
       segs)"

subsection \<open>Emitting the changes\<close>

text \<open>
  The four lists of segment changes that the rundown loops filter while they emit
  (\<open>playlistChangedSegments\<close>, \<open>playlistDeletedSegment\<close>, \<open>playlistCreatedSegments\<close>,
  \<open>playlistMovedSegments\<close>).
\<close>

record Pending =
  playlistChangedSegments :: "PlaylistChange list"
  playlistDeletedSegment :: "PlaylistChange list"
  playlistCreatedSegments :: "PlaylistChange list"
  playlistMovedSegments :: "PlaylistChange list"

text \<open>\<open>for (const x of xs) body\<close>, the body changing local state and producing effects.\<close>

fun forEach :: "('x \<Rightarrow> 's \<Rightarrow> effect list \<times> 's) \<Rightarrow> 'x list \<Rightarrow> 's \<Rightarrow> effect list \<times> 's" where
  "forEach body [] s = ([], s)"
| "forEach body (x # xs) s =
     (let (tr, s') = body x s; (tr', s'') = forEach body xs s' in (tr @ tr', s''))"

definition notOfRundown :: "RundownId \<Rightarrow> PlaylistChange list \<Rightarrow> PlaylistChange list" where
  "notOfRundown rundownId cs = filter (\<lambda>s. rundownExternalId s \<noteq> rundownId) cs"

definition deletedRundownStep :: "PlaylistChange \<Rightarrow> Pending \<Rightarrow> effect list \<times> Pending" where
  "deletedRundownStep rundown p =
     ([Emit (rundown_delete (rundownExternalId rundown))],
      p\<lparr>playlistChangedSegments := notOfRundown (rundownExternalId rundown) (playlistChangedSegments p),
        playlistDeletedSegment := notOfRundown (rundownExternalId rundown) (playlistDeletedSegment p),
        playlistCreatedSegments := notOfRundown (rundownExternalId rundown) (playlistCreatedSegments p),
        playlistMovedSegments := notOfRundown (rundownExternalId rundown) (playlistMovedSegments p)\<rparr>)"

text \<open>The three filters at the end of the body of the created and of the updated loop.\<close>

definition dropCovered :: "RundownId \<Rightarrow> Pending \<Rightarrow> Pending" where
  "dropCovered rundownId p =
     p\<lparr>playlistChangedSegments := notOfRundown rundownId (playlistChangedSegments p),
       playlistCreatedSegments := notOfRundown rundownId (playlistCreatedSegments p),
       playlistMovedSegments := notOfRundown rundownId (playlistMovedSegments p)\<rparr>"

definition backTime_log :: "string \<Rightarrow> IngestRundown \<Rightarrow> effect list" where
  "backTime_log label rundown =
     (case rp_backTime (ir_payload rundown) of
        None \<Rightarrow> []
      | Some backTime \<Rightarrow> if backTime = [] then [] else [Log LogDebug (label @ backTime)])"

definition createdRundownStep :: "PlaylistId \<Rightarrow> ResolvedPlaylist \<Rightarrow> (SegmentId \<rightharpoonup> UnrankedSegment)
    \<Rightarrow> (SegmentId \<rightharpoonup> rat) \<Rightarrow> PlaylistChange \<Rightarrow> Pending \<Rightarrow> effect list \<times> Pending" where
  "createdRundownStep playlistId playlistAssignments cache assignedRanks createdRundown p =
     (case find (\<lambda>r. pa_rundownId r = rundownExternalId createdRundown) playlistAssignments of
        None \<Rightarrow>
          ([Log LogDebug (''Creating rundown: '' @ rundownExternalId createdRundown),
            Log LogError (''Tried to create rundown '' @ rundownExternalId createdRundown
              @ '' but could not find the segments associated with this rundown.'')], p)
      | Some assignedRundown \<Rightarrow>
          (let rundown = playlistRundownToIngestRundown playlistId (pa_rundownId assignedRundown)
                 (pa_segments assignedRundown) cache assignedRanks (pa_backTime assignedRundown)
           in ([Log LogDebug (''Creating rundown: '' @ rundownExternalId createdRundown)]
               @ playlistRundownToIngestRundown_log (pa_rundownId assignedRundown)
                   (pa_segments assignedRundown) cache assignedRanks
               @ backTime_log ''Create with backTime: '' rundown
               @ [Emit (rundown_create (ir_externalId rundown) rundown)],
               dropCovered (rundownExternalId createdRundown) p)))"

definition updatedRundownStep :: "PlaylistId \<Rightarrow> ResolvedPlaylist \<Rightarrow> (SegmentId \<rightharpoonup> UnrankedSegment)
    \<Rightarrow> (SegmentId \<rightharpoonup> rat) \<Rightarrow> PlaylistChange \<Rightarrow> Pending \<Rightarrow> effect list \<times> Pending" where
  "updatedRundownStep playlistId playlistAssignments cache assignedRanks updatedRundown p =
     (case find (\<lambda>r. pa_rundownId r = rundownExternalId updatedRundown) playlistAssignments of
        None \<Rightarrow>
          ([Log LogError (''Tried to create rundown '' @ rundownExternalId updatedRundown
              @ '' but could not find the segments associated with this rundown.'')], p)
      | Some assignedRundown \<Rightarrow>
          (let rundown = playlistRundownToIngestRundown playlistId (pa_rundownId assignedRundown)
                 (pa_segments assignedRundown) cache assignedRanks (pa_backTime assignedRundown)
           in (playlistRundownToIngestRundown_log (pa_rundownId assignedRundown)
                   (pa_segments assignedRundown) cache assignedRanks
               @ backTime_log ''Update with backTime: '' rundown
               @ [Emit (rundown_update (ir_externalId rundown) rundown)],
               dropCovered (rundownExternalId updatedRundown) p)))"

text \<open>\<open>rank = cachedData?.rank ?? 0\<close>, with \<open>cachedData = ingestCacheData.get(segmentId)\<close>.\<close>

definition fallbackRank :: "(SegmentId \<rightharpoonup> RundownSegment) \<Rightarrow> SegmentId \<Rightarrow> rat" where
  "fallbackRank ingestCacheData segmentId =
     (case ingestCacheData segmentId of None \<Rightarrow> 0 | Some cachedData \<Rightarrow> sg_rank cachedData)"

definition changedSegmentStep :: "(SegmentId \<rightharpoonup> UnrankedSegment) \<Rightarrow> (SegmentId \<rightharpoonup> rat)
    \<Rightarrow> (SegmentId \<rightharpoonup> RundownSegment) \<Rightarrow> PlaylistChange \<Rightarrow> effect list" where
  "changedSegmentStep cache assignedRanks ingestCacheData changedSegment =
     (let segmentId = segmentExternalId changedSegment;
          rundownId = rundownExternalId changedSegment
      in case cache segmentId of
           None \<Rightarrow> [Log LogError (''Could not process segment change '' @ segmentId
                      @ '', iNews data could not be found'')]
         | Some inews \<Rightarrow>
            (case assignedRanks segmentId of
               None \<Rightarrow>
                 (let segment = inewsToIngestSegment rundownId segmentId inews
                                  (fallbackRank ingestCacheData segmentId)
                  in [Log LogError (''Could not assign rank to '' @ segmentId
                         @ '', it will appear out of order''),
                      Emit (segment_update rundownId (is_externalId segment) segment)])
             | Some rank \<Rightarrow>
                 (let segment = inewsToIngestSegment rundownId segmentId inews rank
                  in [Emit (segment_update rundownId (is_externalId segment) segment)])))"

definition createdSegmentStep :: "(SegmentId \<rightharpoonup> UnrankedSegment) \<Rightarrow> (SegmentId \<rightharpoonup> rat)
    \<Rightarrow> (SegmentId \<rightharpoonup> RundownSegment) \<Rightarrow> PlaylistChange \<Rightarrow> effect list" where
  "createdSegmentStep cache assignedRanks ingestCacheData createdSegment =
     (let segmentId = segmentExternalId createdSegment;
          rundownId = rundownExternalId createdSegment
      in case cache segmentId of
           None \<Rightarrow> [Log LogError (''Could not process created segment '' @ segmentId
                      @ '', iNews data could not be found'')]
         | Some inews \<Rightarrow>
            (case assignedRanks segmentId of
               None \<Rightarrow>
                 (let segment = inewsToIngestSegment rundownId segmentId inews
                                  (fallbackRank ingestCacheData segmentId)
                  in [Log LogError (''Could not assign rank to '' @ segmentId
                         @ '', it will appear out of order''),
                      Emit (segment_create rundownId (is_externalId segment) segment)])
             | Some rank \<Rightarrow>
                 (let segment = inewsToIngestSegment rundownId segmentId inews rank
                  in [Emit (segment_create rundownId (is_externalId segment) segment)])))"

text \<open>
  The loop over the moved segments fills \<open>updatedRanks\<close>, a \<open>Map\<close> from rundown to an
  object from segment to rank; both are association lists here, a new key going to the
  end and a known key keeping its place.
\<close>

type_synonym UpdatedRanks = "(RundownId \<times> (SegmentId \<times> rat) list) list"

definition movedSegmentStep :: "(SegmentId \<rightharpoonup> rat) \<Rightarrow> (SegmentId \<rightharpoonup> RundownSegment)
    \<Rightarrow> PlaylistChange \<Rightarrow> UpdatedRanks \<Rightarrow> effect list \<times> UpdatedRanks" where
  "movedSegmentStep assignedRanks ingestCacheData movedSegment updatedRanks =
     (let segmentId = segmentExternalId movedSegment;
          rundownId = rundownExternalId movedSegment;
          rundownRanks = (case map_of updatedRanks rundownId of None \<Rightarrow> [] | Some ranks \<Rightarrow> ranks)
      in case assignedRanks segmentId of
           None \<Rightarrow>
             ([Log LogError (''Could not assign rank to '' @ segmentId
                 @ '', it will appear out of order'')],
              AList.update rundownId
                (AList.update segmentId (fallbackRank ingestCacheData segmentId) rundownRanks)
                updatedRanks)
         | Some rank \<Rightarrow>
             ([], AList.update rundownId (AList.update segmentId rank rundownRanks) updatedRanks))"

definition changesOfType :: "PlaylistChangeType \<Rightarrow> PlaylistChange list \<Rightarrow> PlaylistChange list" where
  "changesOfType t changes = filter (\<lambda>f. change_type f = t) changes"

text \<open>
  The second half of \<open>processUpdatedRundown\<close>, in the order of the source: the seven
  filters of \<open>changes\<close>, then the loops over the deleted rundowns, the deleted segments,
  the created rundowns and the updated rundowns, which leave the filtered lists behind.
\<close>

definition emitRundownLevel :: "PlaylistId \<Rightarrow> ResolvedPlaylist \<Rightarrow> (SegmentId \<rightharpoonup> UnrankedSegment)
    \<Rightarrow> (SegmentId \<rightharpoonup> rat) \<Rightarrow> PlaylistChange list \<Rightarrow> effect list \<times> Pending" where
  "emitRundownLevel playlistId playlistAssignments cache assignedRanks changes =
     (let playlistDeletedRundowns = changesOfType RundownDeleted changes;
          playlistCreatedRundowns = changesOfType RundownCreated changes;
          playlistUpdatedRundowns = changesOfType RundownUpdated changes;
          p0 = \<lparr>playlistChangedSegments = changesOfType SegmentChanged changes,
                playlistDeletedSegment = changesOfType SegmentDeleted changes,
                playlistCreatedSegments = changesOfType SegmentCreated changes,
                playlistMovedSegments = changesOfType SegmentMoved changes\<rparr>;
          (tr1, p1) = forEach deletedRundownStep playlistDeletedRundowns p0;
          tr2 = map (\<lambda>segment. Emit (segment_delete (rundownExternalId segment)
                                        (segmentExternalId segment)))
                  (playlistDeletedSegment p1);
          (tr3, p3) = forEach (createdRundownStep playlistId playlistAssignments cache assignedRanks)
                        playlistCreatedRundowns p1;
          (tr4, p4) = forEach (updatedRundownStep playlistId playlistAssignments cache assignedRanks)
                        playlistUpdatedRundowns p3
      in (tr1 @ tr2 @ tr3 @ tr4, p4))"

text \<open>
  Then the loops over what is left of the changed, the created and the moved segments,
  and the loop over \<open>updatedRanks\<close>.
\<close>

definition emitSegmentLevel :: "(SegmentId \<rightharpoonup> UnrankedSegment) \<Rightarrow> (SegmentId \<rightharpoonup> rat)
    \<Rightarrow> (SegmentId \<rightharpoonup> RundownSegment) \<Rightarrow> Pending \<Rightarrow> effect list" where
  "emitSegmentLevel cache assignedRanks ingestCacheData p =
     (let tr5 = concat (map (changedSegmentStep cache assignedRanks ingestCacheData)
                          (playlistChangedSegments p));
          tr6 = concat (map (createdSegmentStep cache assignedRanks ingestCacheData)
                          (playlistCreatedSegments p));
          (tr7, updatedRanks) = forEach (movedSegmentStep assignedRanks ingestCacheData)
                                  (playlistMovedSegments p) [];
          tr8 = map (\<lambda>(rundownId, ranks). Emit (segment_ranks_update rundownId ranks)) updatedRanks
      in tr5 @ tr6 @ tr7 @ tr8)"

definition emitPlaylistChanges :: "PlaylistId \<Rightarrow> ResolvedPlaylist \<Rightarrow> (SegmentId \<rightharpoonup> UnrankedSegment)
    \<Rightarrow> (SegmentId \<rightharpoonup> rat) \<Rightarrow> (SegmentId \<rightharpoonup> RundownSegment) \<Rightarrow> PlaylistChange list \<Rightarrow> effect list" where
  "emitPlaylistChanges playlistId playlistAssignments cache assignedRanks ingestCacheData changes =
     (let (tr, p) = emitRundownLevel playlistId playlistAssignments cache assignedRanks changes
      in tr @ emitSegmentLevel cache assignedRanks ingestCacheData p)"

subsection \<open>The whole of processUpdatedRundown\<close>

text \<open>
  From the construction of \<open>assignedRundowns\<close> to the end: the differ, the ranker, the
  writes to the caches and the emission. Nothing here can reject.
\<close>

definition processResolvedPlaylist :: "'sc Collaborators \<Rightarrow> RundownWatcher \<Rightarrow> PlaylistId \<Rightarrow> ReducedRundown
    \<Rightarrow> ResolvedPlaylist \<Rightarrow> (SegmentId \<rightharpoonup> RundownSegment) \<Rightarrow> effect list \<times> RundownWatcher" where
  "processResolvedPlaylist env w playlistId playlist playlistAssignments ingestCacheData =
     (let assigned = assignedRundowns (gatewayVersion env) (cachedINewsData w) playlistAssignments;
          (changes, segmentChanges) =
             DiffPlaylist env assigned
               (case cachedAssignedRundowns w playlistId of None \<Rightarrow> [] | Some old \<Rightarrow> old);
          w1 = w\<lparr>cachedPlaylistAssignments :=
                    (cachedPlaylistAssignments w)(playlistId \<mapsto> playlistAssignments),
                  cachedAssignedRundowns := (cachedAssignedRundowns w)(playlistId \<mapsto> assigned)\<rparr>;
          segmentRanks = AssignRanksToSegments env playlistAssignments changes segmentChanges
                           (previousRanks w1) (lastForcedRankRecalculation w1);
          assignedRanks = assignedRanksOf segmentRanks;
          w2 = recordRanks (dateNow env) segmentRanks w1;
          w3 = w2\<lparr>segments := foldl (\<lambda>m segment. m(rs_externalId segment \<mapsto> segment))
                                  (segments w2) (rr_segments playlist),
                   rundowns := foldl (\<lambda>m rundown. m(pa_rundownId rundown \<mapsto> pa_segments rundown))
                                  (rundowns w2) playlistAssignments,
                   playlists := (playlists w2)(playlistId \<mapsto> map pa_rundownId playlistAssignments)\<rparr>
      in (assignedRundowns_log (cachedINewsData w) playlistAssignments
            @ emitPlaylistChanges playlistId playlistAssignments (cachedINewsData w3) assignedRanks
                ingestCacheData changes,
          w3))"

text \<open>
  The result is the effects in order, the watcher afterwards, and the error when the
  function throws (a rejected story request or control-plane request).
\<close>

definition processUpdatedRundown :: "'sc Collaborators \<Rightarrow> RundownWatcher \<Rightarrow> PlaylistId \<Rightarrow> ReducedRundown
    \<Rightarrow> effect list \<times> RundownWatcher \<times> js_error option" where
  "processUpdatedRundown env w playlistId playlist =
     (let uncached = uncachedINewsData w playlistId playlist in
      case fetchINewsStoriesById env playlistId uncached of
        Inl e \<Rightarrow> ([Call_fetchINewsStoriesById playlistId uncached], w, Some e)
      | Inr iNewsData \<Rightarrow>
         (let w1 = w\<lparr>cachedINewsData := cachedINewsData w ++ iNewsData\<rparr>;
              playlistAssignments = resolvePlaylistAssignments env playlistId
                                      (segmentsToResolve (cachedINewsData w1) playlist);
              (reqs, skip') = ingestCacheRequests (skipCacheForRundown w1) uncached playlistAssignments;
              w2 = w1\<lparr>skipCacheForRundown := skip'\<rparr>;
              tr = [Call_fetchINewsStoriesById playlistId uncached]
                   @ segmentsToResolve_log (cachedINewsData w1) playlistId playlist
                   @ map (\<lambda>(rundownId, segmentsToFetch).
                            Call_GetSegmentsCacheById rundownId segmentsToFetch) reqs
          in case await_all (map (\<lambda>(rundownId, segmentsToFetch).
                                    GetSegmentsCacheById env rundownId segmentsToFetch) reqs) of
               Inl e \<Rightarrow> (tr, w2, Some e)
             | Inr ingestCacheList \<Rightarrow>
                 (let (tr', w3) = processResolvedPlaylist env w2 playlistId playlist
                                    playlistAssignments (merge_caches ingestCacheList)
                  in (tr @ tr', w3, None))))"

section \<open>The poll\<close>

text \<open>
  \<open>checkINewsRundownById\<close>: a rejected download rejects the call; an error thrown by
  \<open>processUpdatedRundown\<close> is caught and logged. The processing mutex is free whenever
  a poll acquires it, since nothing else runs in this model.
\<close>

definition error_message :: "js_error \<Rightarrow> string" where
  "error_message e = (case e of JsError m \<Rightarrow> m)"

definition checkINewsRundownById :: "'sc Collaborators \<Rightarrow> RundownWatcher \<Rightarrow> string
    \<Rightarrow> effect list \<times> RundownWatcher \<times> js_error option" where
  "checkINewsRundownById env w rundownId =
     (case downloadRundown env rundownId of
        Inl e \<Rightarrow> ([], w, Some e)
      | Inr rundown \<Rightarrow>
          if rr_gatewayVersion rundown = gatewayVersion env
          then (case processUpdatedRundown env w (rr_externalId rundown) rundown of
                  (tr, w', None) \<Rightarrow> (tr, w', None)
                | (tr, w', Some e) \<Rightarrow> (tr @ [Log LogError (error_message e)], w', None))
          else ([], w, None))"

text \<open>\<open>checkINewsRundowns\<close>: the queues in order, stopping at the first rejection.\<close>

fun checkINewsRundowns :: "'sc Collaborators \<Rightarrow> RundownWatcher \<Rightarrow> string list
    \<Rightarrow> effect list \<times> RundownWatcher \<times> js_error option" where
  "checkINewsRundowns env w [] = ([], w, None)"
| "checkINewsRundowns env w (queue # rest) =
     (case checkINewsRundownById env w queue of
        (tr, w', Some e) \<Rightarrow> (tr, w', Some e)
      | (tr, w', None) \<Rightarrow>
          (case checkINewsRundowns env w' rest of (tr', w'', r) \<Rightarrow> (tr @ tr', w'', r)))"

fun string_of_nat :: "nat \<Rightarrow> string" where
  "string_of_nat n =
     (if n < 10 then [char_of (48 + n)]
      else string_of_nat (n div 10) @ [char_of (48 + n mod 10)])"

text \<open>
  \<open>watch\<close>, one poll cycle over the configured queues (the \<open>queues\<close> field of each
  element of \<open>iNewsQueue\<close>). Stopping and restarting the poll timer is not modelled.
\<close>

definition watch :: "'sc Collaborators \<Rightarrow> string list \<Rightarrow> RundownWatcher \<Rightarrow> effect list \<times> RundownWatcher" where
  "watch env iNewsQueue w =
     (case checkINewsRundowns env w iNewsQueue of
        (tr, w', None) \<Rightarrow>
          ([Log LogInfo ''Check rundowns for updates''] @ tr
           @ (if queueLength env > 0
              then [Log LogError (''INews library queue length was '' @ string_of_nat (queueLength env)
                      @ '' when it should be 0.'')]
              else [])
           @ (if isConnected env then [Call_setStatus GOOD []] else []),
           w')
      | (tr, w', Some error) \<Rightarrow>
          ([Log LogInfo ''Check rundowns for updates''] @ tr
           @ [Log LogError ''Something went wrong during check'',
              Call_setStatus WARNING_MAJOR [''Check INews rundows failed'']],
           w'))"

section \<open>Notions used in the statements\<close>

text \<open>Effects that stay inside the process, and those that are only logger calls.\<close>

fun internal :: "effect \<Rightarrow> bool" where
  "internal (Emit _) = True"
| "internal (Log _ _) = True"
| "internal _ = False"

fun is_log :: "effect \<Rightarrow> bool" where
  "is_log (Log _ _) = True"
| "is_log _ = False"

text \<open>A watcher that has not polled yet: every \<open>Map\<close> and the \<open>Set\<close> are empty.\<close>

definition empty_watcher :: RundownWatcher where
  "empty_watcher =
     \<lparr>previousRanks = Map.empty, lastForcedRankRecalculation = Map.empty,
      cachedINewsData = Map.empty, cachedPlaylistAssignments = Map.empty,
      cachedAssignedRundowns = Map.empty, skipCacheForRundown = {},
      playlists = Map.empty, rundowns = Map.empty, segments = Map.empty\<rparr>"

text \<open>The rundown an event is addressed to (its first argument).\<close>

fun event_rundown :: "event \<Rightarrow> RundownId" where
  "event_rundown (rundown_delete r) = r"
| "event_rundown (rundown_create r _) = r"
| "event_rundown (rundown_update r _) = r"
| "event_rundown (segment_delete r _) = r"
| "event_rundown (segment_create r _ _) = r"
| "event_rundown (segment_update r _ _) = r"
| "event_rundown (segment_ranks_update r _) = r"

text \<open>
  The place of an event kind in the emission order: rundown deletes, segment deletes,
  rundown creates, rundown updates, segment updates, segment creates, rank updates.
\<close>

fun event_phase :: "event \<Rightarrow> nat" where
  "event_phase (rundown_delete _) = 0"
| "event_phase (segment_delete _ _) = 1"
| "event_phase (rundown_create _ _) = 2"
| "event_phase (rundown_update _ _) = 3"
| "event_phase (segment_update _ _ _) = 4"
| "event_phase (segment_create _ _ _) = 5"
| "event_phase (segment_ranks_update _ _) = 6"

fun is_rundown_level :: "event \<Rightarrow> bool" where
  "is_rundown_level (rundown_delete _) = True"
| "is_rundown_level (rundown_create _ _) = True"
| "is_rundown_level (rundown_update _ _) = True"
| "is_rundown_level _ = False"

fun is_rundown_upsert :: "event \<Rightarrow> bool" where
  "is_rundown_upsert (rundown_create _ _) = True"
| "is_rundown_upsert (rundown_update _ _) = True"
| "is_rundown_upsert _ = False"

fun is_segment_level :: "event \<Rightarrow> bool" where
  "is_segment_level (segment_create _ _ _) = True"
| "is_segment_level (segment_update _ _ _) = True"
| "is_segment_level (segment_ranks_update _ _) = True"
| "is_segment_level _ = False"

text \<open>The \<open>segment_ranks_update\<close> events of a poll, as rundown and payload.\<close>

fun ranks_payloads :: "event list \<Rightarrow> UpdatedRanks" where
  "ranks_payloads [] = []"
| "ranks_payloads (segment_ranks_update r ranks # es) = (r, ranks) # ranks_payloads es"
| "ranks_payloads (_ # es) = ranks_payloads es"

text \<open>The rank that the payloads give to a segment of a rundown, if any.\<close>

definition ranksLookup :: "UpdatedRanks \<Rightarrow> RundownId \<Rightarrow> SegmentId \<Rightarrow> rat option" where
  "ranksLookup updatedRanks rundownId segmentId =
     (case map_of updatedRanks rundownId of
        None \<Rightarrow> None
      | Some ranks \<Rightarrow> map_of ranks segmentId)"

text \<open>
  The rank a segment loop sends: the assigned rank, or without one the rank of the
  control-plane cache entry fetched in this poll, or \<open>0\<close>.
\<close>

definition emittedRank :: "(SegmentId \<rightharpoonup> rat) \<Rightarrow> (SegmentId \<rightharpoonup> RundownSegment) \<Rightarrow> SegmentId \<Rightarrow> rat" where
  "emittedRank assignedRanks ingestCacheData segmentId =
     (case assignedRanks segmentId of
        Some rank \<Rightarrow> rank
      | None \<Rightarrow> fallbackRank ingestCacheData segmentId)"

text \<open>The changes whose rundown is not in a set; the repeated filters of the loops add up to it.\<close>

definition withoutRundowns :: "RundownId set \<Rightarrow> PlaylistChange list \<Rightarrow> PlaylistChange list" where
  "withoutRundowns S cs = filter (\<lambda>c. rundownExternalId c \<notin> S) cs"

text \<open>The rundown changes whose rundown \<open>playlistAssignments.find\<close> finds.\<close>

definition resolvedOnly :: "ResolvedPlaylist \<Rightarrow> PlaylistChange list \<Rightarrow> PlaylistChange list" where
  "resolvedOnly pa cs =
     filter (\<lambda>c. find (\<lambda>r. pa_rundownId r = rundownExternalId c) pa \<noteq> None) cs"

text \<open>
  The rundowns that get a rundown-level event: every deleted one, and the created and
  updated ones that are found in the playlist assignments.
\<close>

definition coveredRundowns :: "ResolvedPlaylist \<Rightarrow> PlaylistChange list \<Rightarrow> RundownId set" where
  "coveredRundowns pa changes =
     rundownExternalId ` set (changesOfType RundownDeleted changes)
   \<union> rundownExternalId ` set (resolvedOnly pa (changesOfType RundownCreated changes))
   \<union> rundownExternalId ` set (resolvedOnly pa (changesOfType RundownUpdated changes))"

text \<open>The events of the loop over the created rundowns, and of the loop over the updated ones.\<close>

definition rundownCreateEvents :: "PlaylistId \<Rightarrow> ResolvedPlaylist \<Rightarrow> (SegmentId \<rightharpoonup> UnrankedSegment)
    \<Rightarrow> (SegmentId \<rightharpoonup> rat) \<Rightarrow> PlaylistChange list \<Rightarrow> event list" where
  "rundownCreateEvents pid pa cache ranks cs =
     concat (map (\<lambda>c. case find (\<lambda>r. pa_rundownId r = rundownExternalId c) pa of
                         None \<Rightarrow> []
                       | Some a \<Rightarrow> [rundown_create (rundownExternalId c)
                           (playlistRundownToIngestRundown pid (rundownExternalId c) (pa_segments a)
                              cache ranks (pa_backTime a))]) cs)"

definition rundownUpdateEvents :: "PlaylistId \<Rightarrow> ResolvedPlaylist \<Rightarrow> (SegmentId \<rightharpoonup> UnrankedSegment)
    \<Rightarrow> (SegmentId \<rightharpoonup> rat) \<Rightarrow> PlaylistChange list \<Rightarrow> event list" where
  "rundownUpdateEvents pid pa cache ranks cs =
     concat (map (\<lambda>c. case find (\<lambda>r. pa_rundownId r = rundownExternalId c) pa of
                         None \<Rightarrow> []
                       | Some a \<Rightarrow> [rundown_update (rundownExternalId c)
                           (playlistRundownToIngestRundown pid (rundownExternalId c) (pa_segments a)
                              cache ranks (pa_backTime a))]) cs)"

text \<open>The differ's change list and the ranks of a poll, from what the poll has at that point.\<close>

definition pollChanges :: "'sc Collaborators \<Rightarrow> RundownWatcher \<Rightarrow> PlaylistId \<Rightarrow> ResolvedPlaylist \<Rightarrow> PlaylistChange list" where
  "pollChanges env w playlistId playlistAssignments =
     fst (DiffPlaylist env
            (assignedRundowns (gatewayVersion env) (cachedINewsData w) playlistAssignments)
            (case cachedAssignedRundowns w playlistId of None \<Rightarrow> [] | Some old \<Rightarrow> old))"

definition pollRanks :: "'sc Collaborators \<Rightarrow> RundownWatcher \<Rightarrow> PlaylistId \<Rightarrow> ResolvedPlaylist \<Rightarrow> (SegmentId \<rightharpoonup> rat)" where
  "pollRanks env w playlistId playlistAssignments =
     assignedRanksOf
       (AssignRanksToSegments env playlistAssignments
          (pollChanges env w playlistId playlistAssignments)
          (snd (DiffPlaylist env
            (assignedRundowns (gatewayVersion env) (cachedINewsData w) playlistAssignments)
            (case cachedAssignedRundowns w playlistId of None \<Rightarrow> [] | Some old \<Rightarrow> old)))
          (previousRanks w) (lastForcedRankRecalculation w))"

text \<open>The playlist assignments of a poll whose story request returned \<open>stories\<close>.\<close>

definition pollAssignments :: "'sc Collaborators \<Rightarrow> RundownWatcher \<Rightarrow> PlaylistId \<Rightarrow> ReducedRundown
    \<Rightarrow> (SegmentId \<rightharpoonup> UnrankedSegment) \<Rightarrow> ResolvedPlaylist" where
  "pollAssignments env w playlistId playlist stories =
     resolvePlaylistAssignments env playlistId
       (segmentsToResolve (cachedINewsData w ++ stories) playlist)"

section \<open>Example data\<close>

text \<open>
  A queue \<open>Q\<close> that was polled before and is polled again. Before: rundown \<open>Q_1\<close> with
  the stories B, C, X and rundown \<open>Q_3\<close> with Y. Now the listing has B (edited), C, D, E;
  the resolver puts B, C, D into \<open>Q_1\<close> and E into \<open>Q_2\<close>; the ranker gives a rank to C and
  to E only; the control plane knows B with rank 7.
\<close>

definition story :: "SegmentId \<Rightarrow> string \<Rightarrow> UnrankedSegment" where
  "story segmentId locator =
     \<lparr>us_rundownId = ''Q'', us_iNewsStory = \<lparr>meta_float = False, story_content = locator\<rparr>,
      us_modified = 0, us_locator = locator, us_externalId = segmentId, us_name = segmentId\<rparr>"

definition listed :: "SegmentId \<Rightarrow> string \<Rightarrow> ReducedSegment" where
  "listed segmentId locator =
     \<lparr>rs_externalId = segmentId, rs_modified = 0, rs_rank = 0, rs_name = segmentId,
      rs_locator = locator\<rparr>"

definition demo_listing :: ReducedRundown where
  "demo_listing =
     \<lparr>rr_externalId = ''Q'', rr_name = ''Q'', rr_gatewayVersion = ''v1'',
      rr_segments = [listed ''B'' ''l2'', listed ''C'' ''l1'', listed ''D'' ''l1'', listed ''E'' ''l1'']\<rparr>"

definition demo_watcher :: RundownWatcher where
  "demo_watcher =
     empty_watcher\<lparr>
       cachedINewsData := [''B'' \<mapsto> story ''B'' ''l1'', ''C'' \<mapsto> story ''C'' ''l1'',
                           ''X'' \<mapsto> story ''X'' ''l1'', ''Y'' \<mapsto> story ''Y'' ''l1''],
       playlists := [''Q'' \<mapsto> [''Q_1'', ''Q_3'']],
       rundowns := [''Q_1'' \<mapsto> [''B'', ''C'', ''X''], ''Q_3'' \<mapsto> [''Y'']],
       segments := [''B'' \<mapsto> listed ''B'' ''l1'', ''C'' \<mapsto> listed ''C'' ''l1'',
                    ''X'' \<mapsto> listed ''X'' ''l1'', ''Y'' \<mapsto> listed ''Y'' ''l1'']\<rparr>"

definition demo_changes :: "PlaylistChange list" where
  "demo_changes =
     [PlaylistChangeSegmentMoved ''Q_1'' ''C'',
      PlaylistChangeSegmentCreated ''Q_1'' ''D'',
      PlaylistChangeSegmentChanged ''Q_1'' ''B'',
      PlaylistChangeRundownCreated ''Q_2'',
      PlaylistChangeSegmentCreated ''Q_2'' ''E'',
      PlaylistChangeSegmentDeleted ''Q_1'' ''X'',
      PlaylistChangeRundownDeleted ''Q_3'',
      PlaylistChangeSegmentDeleted ''Q_3'' ''Y'']"

definition demo_assignments :: ResolvedPlaylist where
  "demo_assignments =
     [\<lparr>pa_rundownId = ''Q_1'', pa_segments = [''B'', ''C'', ''D''], pa_backTime = None\<rparr>,
      \<lparr>pa_rundownId = ''Q_2'', pa_segments = [''E''], pa_backTime = None\<rparr>]"

definition demo_env :: "unit Collaborators" where
  "demo_env =
     \<lparr>gatewayVersion = ''v1'', isConnected = True, queueLength = 0, dateNow = 1000,
      downloadRundown = (\<lambda>queue. Inr demo_listing),
      fetchINewsStoriesById = (\<lambda>playlistId ids.
         Inr [''B'' \<mapsto> story ''B'' ''l2'', ''D'' \<mapsto> story ''D'' ''l1'', ''E'' \<mapsto> story ''E'' ''l1'']),
      GetSegmentsCacheById = (\<lambda>rundownId ids.
         Inr (if rundownId = ''Q_1''
              then [''B'' \<mapsto> \<lparr>sg_rundownId = ''Q_1'',
                      sg_iNewsStory = \<lparr>meta_float = False, story_content = ''l1''\<rparr>,
                      sg_modified = 0, sg_locator = ''l1'', sg_externalId = ''B'', sg_rank = 7,
                      sg_name = ''B''\<rparr>]
              else Map.empty)),
      ResolveRundownIntoPlaylist = (\<lambda>playlistId segs. demo_assignments),
      DiffPlaylist = (\<lambda>new old. (demo_changes, ())),
      AssignRanksToSegments = (\<lambda>assignments changes segmentChanges previous lastForced.
         [\<lparr>ar_rundownId = ''Q_1'', ar_assignedRanks = [''C'' \<mapsto> 1 / 2],
           ar_recalculatedAsIntegers = False\<rparr>,
          \<lparr>ar_rundownId = ''Q_2'', ar_assignedRanks = [''E'' \<mapsto> 1],
           ar_recalculatedAsIntegers = True\<rparr>])\<rparr>"


definition demo_other_version :: "unit Collaborators" where
  "demo_other_version = demo_env\<lparr>gatewayVersion := ''v2'', isConnected := False\<rparr>"




text \<open>An empty queue: no story listed, the resolver returns no rundown, the differ reports one created rundown.\<close>

definition empty_listing :: ReducedRundown where
  "empty_listing =
     \<lparr>rr_externalId = ''Q'', rr_name = ''Q'', rr_gatewayVersion = ''v1'', rr_segments = []\<rparr>"

definition empty_queue_env :: "unit Collaborators" where
  "empty_queue_env =
     \<lparr>gatewayVersion = ''v1'', isConnected = True, queueLength = 0, dateNow = 1000,
      downloadRundown = (\<lambda>queue. Inr empty_listing),
      fetchINewsStoriesById = (\<lambda>playlistId ids. Inr Map.empty),
      GetSegmentsCacheById = (\<lambda>rundownId ids. Inr Map.empty),
      ResolveRundownIntoPlaylist = (\<lambda>playlistId segs. []),
      DiffPlaylist = (\<lambda>new old. ([PlaylistChangeRundownCreated ''Q_1''], ())),
      AssignRanksToSegments = (\<lambda>assignments changes segmentChanges previous lastForced.
         [\<lparr>ar_rundownId = ''Q_1'', ar_assignedRanks = Map.empty, ar_recalculatedAsIntegers = False\<rparr>])\<rparr>"

text \<open>The locals of the example poll when it starts to emit.\<close>

definition demo_cache :: "SegmentId \<rightharpoonup> UnrankedSegment" where
  "demo_cache =
     [''B'' \<mapsto> story ''B'' ''l2'', ''C'' \<mapsto> story ''C'' ''l1'', ''D'' \<mapsto> story ''D'' ''l1'',
      ''E'' \<mapsto> story ''E'' ''l1'', ''X'' \<mapsto> story ''X'' ''l1'', ''Y'' \<mapsto> story ''Y'' ''l1'']"

definition demo_ranks :: "SegmentId \<rightharpoonup> rat" where
  "demo_ranks = [''C'' \<mapsto> 1 / 2, ''E'' \<mapsto> 1]"

definition demo_ingest :: "SegmentId \<rightharpoonup> RundownSegment" where
  "demo_ingest =
     [''B'' \<mapsto> \<lparr>sg_rundownId = ''Q_1'',
        sg_iNewsStory = \<lparr>meta_float = False, story_content = ''l1''\<rparr>,
        sg_modified = 0, sg_locator = ''l1'', sg_externalId = ''B'', sg_rank = 7,
        sg_name = ''B''\<rparr>]"



section \<open>Facts about the model\<close>

lemma events_of_append [simp]: "events_of (a @ b) = events_of a @ events_of b"
  by (induction a rule: events_of.induct) auto

lemma statuses_of_append [simp]: "statuses_of (a @ b) = statuses_of a @ statuses_of b"
  by (induction a rule: statuses_of.induct) auto

lemma core_cache_requests_append [simp]:
  "core_cache_requests (a @ b) = core_cache_requests a @ core_cache_requests b"
  by (induction a rule: core_cache_requests.induct) auto

lemma story_requests_append [simp]: "story_requests (a @ b) = story_requests a @ story_requests b"
  by (induction a rule: story_requests.induct) auto

lemma internal_no_calls:
  "list_all internal tr \<Longrightarrow>
     statuses_of tr = [] \<and> core_cache_requests tr = [] \<and> story_requests tr = []"
  by (induction tr rule: statuses_of.induct) auto

lemma logs_no_events: "list_all is_log tr \<Longrightarrow> events_of tr = [] \<and> list_all internal tr"
  by (induction tr rule: events_of.induct) auto

lemma forEach_list_all:
  assumes "\<And>x s. list_all P (fst (body x s))"
  shows "list_all P (fst (forEach body xs s))"
proof (induction xs arbitrary: s)
  case Nil
  show ?case by simp
next
  case (Cons x xs)
  have "list_all P (fst (body x s))" by (rule assms)
  moreover have "list_all P (fst (forEach body xs (snd (body x s))))" by (rule Cons.IH)
  ultimately show ?case by (simp add: split_beta Let_def)
qed

lemma list_all_concat_map: "(\<And>x. list_all P (f x)) \<Longrightarrow> list_all P (concat (map f xs))"
  by (induction xs) auto

lemma delete_all_apply: "delete_all ks m k = (if k \<in> set ks then None else m k)"
  unfolding delete_all_def by (induction ks arbitrary: m) auto

subsection \<open>The filters of the pending lists\<close>

lemma withoutRundowns_empty [simp]: "withoutRundowns {} cs = cs"
  by (simp add: withoutRundowns_def)

lemma without_notOfRundown:
  "withoutRundowns S (notOfRundown r cs) = withoutRundowns (insert r S) cs"
  by (auto simp: notOfRundown_def withoutRundowns_def intro: filter_cong)

lemma without_without:
  "withoutRundowns S (withoutRundowns T cs) = withoutRundowns (S \<union> T) cs"
  by (auto simp: withoutRundowns_def intro: filter_cong)

subsection \<open>Traces that only log\<close>

lemma ingest_log_is_log: "list_all is_log (playlistRundownToIngestRundown_log r segs c ranks)"
  unfolding playlistRundownToIngestRundown_log_def by (rule list_all_concat_map) simp

lemma backTime_log_is_log: "list_all is_log (backTime_log l r)"
  by (simp add: backTime_log_def split: option.splits)

lemma segmentsToResolve_log_is_log: "list_all is_log (segmentsToResolve_log c p pl)"
  unfolding segmentsToResolve_log_def by (rule list_all_concat_map) simp

lemma assignedRundowns_log_is_log: "list_all is_log (assignedRundowns_log c pa)"
  unfolding assignedRundowns_log_def by (intro list_all_concat_map) simp

subsection \<open>The loop over the deleted rundowns\<close>

lemma forEach_deleted_trace:
  "fst (forEach deletedRundownStep ds p) = map (\<lambda>d. Emit (rundown_delete (rundownExternalId d))) ds"
  by (induction ds arbitrary: p) (auto simp: deletedRundownStep_def split_beta Let_def)

lemma forEach_deleted_pending:
  "playlistChangedSegments (snd (forEach deletedRundownStep ds p))
     = withoutRundowns (rundownExternalId ` set ds) (playlistChangedSegments p)
   \<and> playlistDeletedSegment (snd (forEach deletedRundownStep ds p))
     = withoutRundowns (rundownExternalId ` set ds) (playlistDeletedSegment p)
   \<and> playlistCreatedSegments (snd (forEach deletedRundownStep ds p))
     = withoutRundowns (rundownExternalId ` set ds) (playlistCreatedSegments p)
   \<and> playlistMovedSegments (snd (forEach deletedRundownStep ds p))
     = withoutRundowns (rundownExternalId ` set ds) (playlistMovedSegments p)"
  by (induction ds arbitrary: p)
     (auto simp: deletedRundownStep_def split_beta Let_def without_notOfRundown)

subsection \<open>The loops over the created and the updated rundowns\<close>

lemma find_rundown_id:
  "find (\<lambda>r. pa_rundownId r = x) pa = Some a \<Longrightarrow> pa_rundownId a = x"
  by (auto simp: find_Some_iff)

lemma createdRundownStep_events:
  "events_of (fst (createdRundownStep pid pa cache ranks c p)) =
     (case find (\<lambda>r. pa_rundownId r = rundownExternalId c) pa of
        None \<Rightarrow> []
      | Some a \<Rightarrow> [rundown_create (rundownExternalId c)
           (playlistRundownToIngestRundown pid (rundownExternalId c) (pa_segments a) cache ranks (pa_backTime a))])"
proof (cases "find (\<lambda>r. pa_rundownId r = rundownExternalId c) pa")
  case None
  then show ?thesis by (simp add: createdRundownStep_def)
next
  case (Some a)
  then have "pa_rundownId a = rundownExternalId c" by (rule find_rundown_id)
  with Some show ?thesis
    using logs_no_events [OF ingest_log_is_log] logs_no_events [OF backTime_log_is_log]
    by (simp add: createdRundownStep_def Let_def playlistRundownToIngestRundown_def)
qed

lemma updatedRundownStep_events:
  "events_of (fst (updatedRundownStep pid pa cache ranks c p)) =
     (case find (\<lambda>r. pa_rundownId r = rundownExternalId c) pa of
        None \<Rightarrow> []
      | Some a \<Rightarrow> [rundown_update (rundownExternalId c)
           (playlistRundownToIngestRundown pid (rundownExternalId c) (pa_segments a) cache ranks (pa_backTime a))])"
proof (cases "find (\<lambda>r. pa_rundownId r = rundownExternalId c) pa")
  case None
  then show ?thesis by (simp add: updatedRundownStep_def)
next
  case (Some a)
  then have "pa_rundownId a = rundownExternalId c" by (rule find_rundown_id)
  with Some show ?thesis
    using logs_no_events [OF ingest_log_is_log] logs_no_events [OF backTime_log_is_log]
    by (simp add: updatedRundownStep_def Let_def playlistRundownToIngestRundown_def)
qed

lemma createdRundownStep_pending:
  "snd (createdRundownStep pid pa cache ranks c p) =
     (if find (\<lambda>r. pa_rundownId r = rundownExternalId c) pa = None then p
      else dropCovered (rundownExternalId c) p)"
  by (auto simp: createdRundownStep_def Let_def split: option.splits)

lemma updatedRundownStep_pending:
  "snd (updatedRundownStep pid pa cache ranks c p) =
     (if find (\<lambda>r. pa_rundownId r = rundownExternalId c) pa = None then p
      else dropCovered (rundownExternalId c) p)"
  by (auto simp: updatedRundownStep_def Let_def split: option.splits)

lemma createdRundownStep_internal: "list_all internal (fst (createdRundownStep pid pa cache ranks c p))"
  using logs_no_events [OF ingest_log_is_log] logs_no_events [OF backTime_log_is_log]
  by (auto simp: createdRundownStep_def Let_def split: option.splits)

lemma updatedRundownStep_internal: "list_all internal (fst (updatedRundownStep pid pa cache ranks c p))"
  using logs_no_events [OF ingest_log_is_log] logs_no_events [OF backTime_log_is_log]
  by (auto simp: updatedRundownStep_def Let_def split: option.splits)

text \<open>A loop whose body either leaves the pending lists alone or drops one rundown from them.\<close>

lemma forEach_covering_pending:
  assumes "\<And>c p. snd (body c p) =
     (if find (\<lambda>r. pa_rundownId r = rundownExternalId c) pa = None then p
      else dropCovered (rundownExternalId c) p)"
  shows "playlistChangedSegments (snd (forEach body cs p))
       = withoutRundowns (rundownExternalId ` set (resolvedOnly pa cs)) (playlistChangedSegments p)
     \<and> playlistDeletedSegment (snd (forEach body cs p)) = playlistDeletedSegment p
     \<and> playlistCreatedSegments (snd (forEach body cs p))
       = withoutRundowns (rundownExternalId ` set (resolvedOnly pa cs)) (playlistCreatedSegments p)
     \<and> playlistMovedSegments (snd (forEach body cs p))
       = withoutRundowns (rundownExternalId ` set (resolvedOnly pa cs)) (playlistMovedSegments p)"
proof (induction cs arbitrary: p)
  case Nil
  show ?case by (simp add: resolvedOnly_def)
next
  case (Cons c cs)
  show ?case
    using Cons.IH [of "snd (body c p)"]
    by (simp add: split_beta Let_def assms resolvedOnly_def dropCovered_def without_notOfRundown)
qed

subsection \<open>The segment loops\<close>

lemma changedSegmentStep_events:
  "events_of (changedSegmentStep cache ranks ingest c) =
     (case cache (segmentExternalId c) of
        None \<Rightarrow> []
      | Some inews \<Rightarrow> [segment_update (rundownExternalId c) (segmentExternalId c)
          (inewsToIngestSegment (rundownExternalId c) (segmentExternalId c) inews
             (emittedRank ranks ingest (segmentExternalId c)))])"
  by (simp add: changedSegmentStep_def Let_def emittedRank_def inewsToIngestSegment_def
      split: option.splits)

lemma createdSegmentStep_events:
  "events_of (createdSegmentStep cache ranks ingest c) =
     (case cache (segmentExternalId c) of
        None \<Rightarrow> []
      | Some inews \<Rightarrow> [segment_create (rundownExternalId c) (segmentExternalId c)
          (inewsToIngestSegment (rundownExternalId c) (segmentExternalId c) inews
             (emittedRank ranks ingest (segmentExternalId c)))])"
  by (simp add: createdSegmentStep_def Let_def emittedRank_def inewsToIngestSegment_def
      split: option.splits)

lemma changedSegmentStep_internal: "list_all internal (changedSegmentStep cache ranks ingest c)"
  by (simp add: changedSegmentStep_def Let_def split: option.splits)

lemma createdSegmentStep_internal: "list_all internal (createdSegmentStep cache ranks ingest c)"
  by (simp add: createdSegmentStep_def Let_def split: option.splits)

lemma events_of_concat_map:
  "events_of (concat (map f xs)) = concat (map (\<lambda>x. events_of (f x)) xs)"
  by (induction xs) auto

lemma events_of_map_Emit [simp]: "events_of (map (\<lambda>x. Emit (f x)) xs) = map f xs"
  by (induction xs) auto

lemma movedSegmentStep_trace: "list_all is_log (fst (movedSegmentStep ranks ingest m U))"
  by (simp add: movedSegmentStep_def Let_def split: option.splits)






lemma forEach_moved_trace: "list_all is_log (fst (forEach (movedSegmentStep ranks ingest) ms U))"
  by (rule forEach_list_all) (rule movedSegmentStep_trace)

lemma ranks_payloads_append [simp]: "ranks_payloads (a @ b) = ranks_payloads a @ ranks_payloads b"
  by (induction a rule: ranks_payloads.induct) auto

lemma ranks_payloads_map [simp]:
  "ranks_payloads (map (\<lambda>(r, ranks). segment_ranks_update r ranks) U) = U"
  by (induction U) auto

lemma events_of_map_ranks [simp]:
  "events_of (map (\<lambda>(r, ranks). Emit (segment_ranks_update r ranks)) U)
     = map (\<lambda>(r, ranks). segment_ranks_update r ranks) U"
  by (induction U) auto

subsection \<open>The two halves of the emission\<close>

text \<open>The events of the segment-level half, then the events and the remaining lists of the rundown-level half.\<close>

lemma emitSegmentLevel_events:
  "events_of (emitSegmentLevel cache ranks ingest p) =
     concat (map (\<lambda>c. events_of (changedSegmentStep cache ranks ingest c)) (playlistChangedSegments p))
   @ concat (map (\<lambda>c. events_of (createdSegmentStep cache ranks ingest c)) (playlistCreatedSegments p))
   @ map (\<lambda>(r, ranks). segment_ranks_update r ranks)
       (snd (forEach (movedSegmentStep ranks ingest) (playlistMovedSegments p) []))"
  using logs_no_events [OF forEach_moved_trace]
  by (simp add: emitSegmentLevel_def Let_def split_beta events_of_concat_map)

lemma emitRundownLevel_pending:
  "playlistChangedSegments (snd (emitRundownLevel pid pa cache ranks changes))
     = withoutRundowns (coveredRundowns pa changes) (changesOfType SegmentChanged changes)
   \<and> playlistCreatedSegments (snd (emitRundownLevel pid pa cache ranks changes))
     = withoutRundowns (coveredRundowns pa changes) (changesOfType SegmentCreated changes)
   \<and> playlistMovedSegments (snd (emitRundownLevel pid pa cache ranks changes))
     = withoutRundowns (coveredRundowns pa changes) (changesOfType SegmentMoved changes)"
  by (simp add: emitRundownLevel_def Let_def split_beta coveredRundowns_def
      forEach_covering_pending [OF createdRundownStep_pending]
      forEach_covering_pending [OF updatedRundownStep_pending]
      forEach_deleted_pending without_without Un_ac)

lemma emitRundownLevel_events:
  "events_of (fst (emitRundownLevel pid pa cache ranks changes)) =
     map (\<lambda>d. rundown_delete (rundownExternalId d)) (changesOfType RundownDeleted changes)
   @ map (\<lambda>s. segment_delete (rundownExternalId s) (segmentExternalId s))
       (withoutRundowns (rundownExternalId ` set (changesOfType RundownDeleted changes))
          (changesOfType SegmentDeleted changes))
   @ events_of (fst (forEach (createdRundownStep pid pa cache ranks) (changesOfType RundownCreated changes)
        (snd (forEach deletedRundownStep (changesOfType RundownDeleted changes)
           \<lparr>playlistChangedSegments = changesOfType SegmentChanged changes,
            playlistDeletedSegment = changesOfType SegmentDeleted changes,
            playlistCreatedSegments = changesOfType SegmentCreated changes,
            playlistMovedSegments = changesOfType SegmentMoved changes\<rparr>))))
   @ events_of (fst (forEach (updatedRundownStep pid pa cache ranks) (changesOfType RundownUpdated changes)
        (snd (forEach (createdRundownStep pid pa cache ranks) (changesOfType RundownCreated changes)
        (snd (forEach deletedRundownStep (changesOfType RundownDeleted changes)
           \<lparr>playlistChangedSegments = changesOfType SegmentChanged changes,
            playlistDeletedSegment = changesOfType SegmentDeleted changes,
            playlistCreatedSegments = changesOfType SegmentCreated changes,
            playlistMovedSegments = changesOfType SegmentMoved changes\<rparr>))))))"
  by (simp add: emitRundownLevel_def Let_def split_beta forEach_deleted_trace forEach_deleted_pending)

lemma forEach_created_exact:
  "events_of (fst (forEach (createdRundownStep pid pa cache ranks) cs p))
     = rundownCreateEvents pid pa cache ranks cs"
  by (induction cs arbitrary: p)
     (simp_all add: split_beta Let_def createdRundownStep_events rundownCreateEvents_def)

lemma forEach_updated_exact:
  "events_of (fst (forEach (updatedRundownStep pid pa cache ranks) cs p))
     = rundownUpdateEvents pid pa cache ranks cs"
  by (induction cs arbitrary: p)
     (simp_all add: split_beta Let_def updatedRundownStep_events rundownUpdateEvents_def)



text \<open>What one call of the emitting half emits, written out.\<close>

lemma emitPlaylistChanges_events:
  "events_of (emitPlaylistChanges pid pa cache ranks ingest changes) =
     map (\<lambda>d. rundown_delete (rundownExternalId d)) (changesOfType RundownDeleted changes)
   @ map (\<lambda>s. segment_delete (rundownExternalId s) (segmentExternalId s))
       (withoutRundowns (rundownExternalId ` set (changesOfType RundownDeleted changes))
          (changesOfType SegmentDeleted changes))
   @ rundownCreateEvents pid pa cache ranks (changesOfType RundownCreated changes)
   @ rundownUpdateEvents pid pa cache ranks (changesOfType RundownUpdated changes)
   @ concat (map (\<lambda>c. events_of (changedSegmentStep cache ranks ingest c))
       (withoutRundowns (coveredRundowns pa changes) (changesOfType SegmentChanged changes)))
   @ concat (map (\<lambda>c. events_of (createdSegmentStep cache ranks ingest c))
       (withoutRundowns (coveredRundowns pa changes) (changesOfType SegmentCreated changes)))
   @ map (\<lambda>(r, ranks). segment_ranks_update r ranks)
       (snd (forEach (movedSegmentStep ranks ingest)
          (withoutRundowns (coveredRundowns pa changes) (changesOfType SegmentMoved changes)) []))"
  by (simp add: emitPlaylistChanges_def split_beta emitSegmentLevel_events emitRundownLevel_events
      emitRundownLevel_pending forEach_created_exact forEach_updated_exact)

subsection \<open>Kinds and rundowns of the emitted events\<close>

lemma sorted_const: "\<forall>x\<in>set xs. f x = c \<Longrightarrow> sorted (map f xs)"
  by (induction xs) auto

lemma changed_events_phase:
  "\<forall>e\<in>set (concat (map (\<lambda>c. events_of (changedSegmentStep cache ranks ingest c)) cs)).
      event_phase e = 4 \<and> is_segment_level e \<and> \<not> is_rundown_level e \<and> event_rundown e \<in> rundownExternalId ` set cs"
  by (auto simp: changedSegmentStep_events split: option.splits)

lemma created_events_phase:
  "\<forall>e\<in>set (concat (map (\<lambda>c. events_of (createdSegmentStep cache ranks ingest c)) cs)).
      event_phase e = 5 \<and> is_segment_level e \<and> \<not> is_rundown_level e \<and> event_rundown e \<in> rundownExternalId ` set cs"
  by (auto simp: createdSegmentStep_events split: option.splits)

lemma ranks_events_phase:
  "\<forall>e\<in>set (map (\<lambda>(r, ranks). segment_ranks_update r ranks) U).
      event_phase e = 6 \<and> is_segment_level e \<and> \<not> is_rundown_level e \<and> event_rundown e \<in> fst ` set U"
  by (auto simp: image_iff split: prod.splits) force

lemma create_events_set:
  "\<forall>e\<in>set (rundownCreateEvents pid pa cache ranks cs).
      event_phase e = 2 \<and> is_rundown_upsert e \<and> is_rundown_level e \<and> \<not> is_segment_level e
      \<and> event_rundown e \<in> rundownExternalId ` set (resolvedOnly pa cs)"
  by (induction cs) (auto simp: rundownCreateEvents_def resolvedOnly_def split: option.splits)

lemma update_events_set:
  "\<forall>e\<in>set (rundownUpdateEvents pid pa cache ranks cs).
      event_phase e = 3 \<and> is_rundown_upsert e \<and> is_rundown_level e \<and> \<not> is_segment_level e
      \<and> event_rundown e \<in> rundownExternalId ` set (resolvedOnly pa cs)"
  by (induction cs) (auto simp: rundownUpdateEvents_def resolvedOnly_def split: option.splits)

lemma emitPlaylistChanges_order:
  "sorted (map event_phase (events_of (emitPlaylistChanges pid pa cache ranks ingest changes)))"
  unfolding emitPlaylistChanges_events
  using changed_events_phase [of cache ranks ingest
          "withoutRundowns (coveredRundowns pa changes) (changesOfType SegmentChanged changes)"]
        created_events_phase [of cache ranks ingest
          "withoutRundowns (coveredRundowns pa changes) (changesOfType SegmentCreated changes)"]
        ranks_events_phase [of "snd (forEach (movedSegmentStep ranks ingest)
          (withoutRundowns (coveredRundowns pa changes) (changesOfType SegmentMoved changes)) [])"]
        create_events_set [of pid pa cache ranks "changesOfType RundownCreated changes"]
        update_events_set [of pid pa cache ranks "changesOfType RundownUpdated changes"]
  apply (simp only: map_append sorted_append)
  apply (intro conjI sorted_const ballI)
  apply (auto simp del: set_concat)
  done

subsection \<open>The emission makes no request\<close>

lemma forEach_created_internal:
  "list_all internal (fst (forEach (createdRundownStep pid pa cache ranks) cs p))"
  by (rule forEach_list_all) (rule createdRundownStep_internal)

lemma forEach_updated_internal:
  "list_all internal (fst (forEach (updatedRundownStep pid pa cache ranks) cs p))"
  by (rule forEach_list_all) (rule updatedRundownStep_internal)

lemma list_all_map_Emit: "list_all internal (map (\<lambda>x. Emit (f x)) xs)"
  by (induction xs) auto

lemma emitRundownLevel_internal: "list_all internal (fst (emitRundownLevel pid pa cache ranks changes))"
  by (simp add: emitRundownLevel_def Let_def split_beta forEach_deleted_trace
      forEach_created_internal forEach_updated_internal list_all_map_Emit)

lemma list_all_map_ranks:
  "list_all internal (map (\<lambda>(r, ranks). Emit (segment_ranks_update r ranks)) U)"
  by (induction U) auto

lemma emitSegmentLevel_internal: "list_all internal (emitSegmentLevel cache ranks ingest p)"
  using logs_no_events [OF forEach_moved_trace, of ranks ingest "playlistMovedSegments p" "[]"]
  by (simp add: emitSegmentLevel_def Let_def split_beta list_all_map_ranks
      list_all_concat_map [OF changedSegmentStep_internal]
      list_all_concat_map [OF createdSegmentStep_internal])

lemma emitPlaylistChanges_internal: "list_all internal (emitPlaylistChanges pid pa cache ranks ingest changes)"
  by (simp add: emitPlaylistChanges_def split_beta emitRundownLevel_internal emitSegmentLevel_internal)

lemma emitPlaylistChanges_nothing: "events_of (emitPlaylistChanges pid pa cache ranks ingest []) = []"
  by (simp add: emitPlaylistChanges_events changesOfType_def withoutRundowns_def
      rundownCreateEvents_def rundownUpdateEvents_def)

subsection \<open>From the resolved playlist to the end\<close>

lemma recordRanks_fields:
  "cachedINewsData (recordRanks n rs w) = cachedINewsData w
   \<and> skipCacheForRundown (recordRanks n rs w) = skipCacheForRundown w
   \<and> playlists (recordRanks n rs w) = playlists w
   \<and> rundowns (recordRanks n rs w) = rundowns w
   \<and> segments (recordRanks n rs w) = segments w
   \<and> cachedPlaylistAssignments (recordRanks n rs w) = cachedPlaylistAssignments w
   \<and> cachedAssignedRundowns (recordRanks n rs w) = cachedAssignedRundowns w"
  unfolding recordRanks_def by (induction rs arbitrary: w) simp_all

lemma processResolvedPlaylist_trace:
  "fst (processResolvedPlaylist env w pid pl pa ingest) =
     assignedRundowns_log (cachedINewsData w) pa
     @ emitPlaylistChanges pid pa (cachedINewsData w) (pollRanks env w pid pa) ingest
         (pollChanges env w pid pa)"
  by (simp add: processResolvedPlaylist_def Let_def split_beta recordRanks_fields
      pollChanges_def pollRanks_def)

lemma processResolvedPlaylist_state:
  "cachedINewsData (snd (processResolvedPlaylist env w pid pl pa ingest)) = cachedINewsData w
   \<and> skipCacheForRundown (snd (processResolvedPlaylist env w pid pl pa ingest)) = skipCacheForRundown w
   \<and> playlists (snd (processResolvedPlaylist env w pid pl pa ingest))
       = (playlists w)(pid \<mapsto> map pa_rundownId pa)
   \<and> rundowns (snd (processResolvedPlaylist env w pid pl pa ingest))
       = foldl (\<lambda>m rundown. m(pa_rundownId rundown \<mapsto> pa_segments rundown)) (rundowns w) pa
   \<and> segments (snd (processResolvedPlaylist env w pid pl pa ingest))
       = foldl (\<lambda>m segment. m(rs_externalId segment \<mapsto> segment)) (segments w) (rr_segments pl)
   \<and> cachedPlaylistAssignments (snd (processResolvedPlaylist env w pid pl pa ingest))
       = (cachedPlaylistAssignments w)(pid \<mapsto> pa)
   \<and> cachedAssignedRundowns (snd (processResolvedPlaylist env w pid pl pa ingest))
       = (cachedAssignedRundowns w)(pid \<mapsto> assignedRundowns (gatewayVersion env) (cachedINewsData w) pa)"
  by (simp add: processResolvedPlaylist_def Let_def split_beta recordRanks_fields)

lemma processResolvedPlaylist_internal:
  "list_all internal (fst (processResolvedPlaylist env w pid pl pa ingest))"
  using logs_no_events [OF assignedRundowns_log_is_log]
  by (simp add: processResolvedPlaylist_trace emitPlaylistChanges_internal)

subsection \<open>processUpdatedRundown by cases\<close>

lemma processUpdatedRundown_rejected:
  "fetchINewsStoriesById env pid (uncachedINewsData w pid pl) = Inl e \<Longrightarrow>
   processUpdatedRundown env w pid pl =
     ([Call_fetchINewsStoriesById pid (uncachedINewsData w pid pl)], w, Some e)"
  by (simp add: processUpdatedRundown_def Let_def)

lemma processUpdatedRundown_fetched:
  assumes "fetchINewsStoriesById env pid (uncachedINewsData w pid pl) = Inr stories"
  shows "processUpdatedRundown env w pid pl =
     (let uncached = uncachedINewsData w pid pl;
          pa = pollAssignments env w pid pl stories;
          reqs = fst (ingestCacheRequests (skipCacheForRundown w) uncached pa);
          w2 = w\<lparr>cachedINewsData := cachedINewsData w ++ stories,
                 skipCacheForRundown := snd (ingestCacheRequests (skipCacheForRundown w) uncached pa)\<rparr>;
          tr = [Call_fetchINewsStoriesById pid uncached]
               @ segmentsToResolve_log (cachedINewsData w ++ stories) pid pl
               @ map (\<lambda>(r, ids). Call_GetSegmentsCacheById r ids) reqs
      in case await_all (map (\<lambda>(r, ids). GetSegmentsCacheById env r ids) reqs) of
           Inl e \<Rightarrow> (tr, w2, Some e)
         | Inr caches \<Rightarrow>
             (tr @ fst (processResolvedPlaylist env w2 pid pl pa (merge_caches caches)),
              snd (processResolvedPlaylist env w2 pid pl pa (merge_caches caches)), None))"
  using assms
  by (simp add: processUpdatedRundown_def Let_def split_beta pollAssignments_def split: sum.splits)

lemma core_cache_requests_map [simp]:
  "core_cache_requests (map (\<lambda>(r, ids). Call_GetSegmentsCacheById r ids) reqs) = reqs"
  by (induction reqs) auto

lemma calls_no_events:
  "events_of (map (\<lambda>(r, ids). Call_GetSegmentsCacheById r ids) reqs) = []
   \<and> statuses_of (map (\<lambda>(r, ids). Call_GetSegmentsCacheById r ids) reqs) = []
   \<and> story_requests (map (\<lambda>(r, ids). Call_GetSegmentsCacheById r ids) reqs) = []"
  by (induction reqs) auto

lemma segmentsToResolve_log_quiet:
  "events_of (segmentsToResolve_log c p pl) = []
   \<and> statuses_of (segmentsToResolve_log c p pl) = []
   \<and> core_cache_requests (segmentsToResolve_log c p pl) = []
   \<and> story_requests (segmentsToResolve_log c p pl) = []"
  using logs_no_events [OF segmentsToResolve_log_is_log, of c p pl] internal_no_calls by blast

lemma processResolvedPlaylist_quiet:
  "statuses_of (fst (processResolvedPlaylist env w pid pl pa ingest)) = []
   \<and> core_cache_requests (fst (processResolvedPlaylist env w pid pl pa ingest)) = []
   \<and> story_requests (fst (processResolvedPlaylist env w pid pl pa ingest)) = []"
  by (rule internal_no_calls) (rule processResolvedPlaylist_internal)

lemma assignedRundowns_log_quiet: "events_of (assignedRundowns_log c pa) = []"
  using logs_no_events [OF assignedRundowns_log_is_log] by blast


lemma processUpdatedRundown_statuses:
  "statuses_of (fst (processUpdatedRundown env w pid pl)) = []"
proof (cases "fetchINewsStoriesById env pid (uncachedINewsData w pid pl)")
  case (Inl e)
  then show ?thesis by (simp add: processUpdatedRundown_rejected)
next
  case (Inr stories)
  show ?thesis
    by (simp add: processUpdatedRundown_fetched [OF Inr] Let_def calls_no_events
        segmentsToResolve_log_quiet processResolvedPlaylist_quiet split: sum.splits)
qed

lemma processUpdatedRundown_core_requests:
  assumes "fetchINewsStoriesById env pid (uncachedINewsData w pid pl) = Inr stories"
  shows "core_cache_requests (fst (processUpdatedRundown env w pid pl)) =
           fst (ingestCacheRequests (skipCacheForRundown w) (uncachedINewsData w pid pl)
                  (pollAssignments env w pid pl stories))
       \<and> skipCacheForRundown (fst (snd (processUpdatedRundown env w pid pl))) =
           snd (ingestCacheRequests (skipCacheForRundown w) (uncachedINewsData w pid pl)
                  (pollAssignments env w pid pl stories))
       \<and> cachedINewsData (fst (snd (processUpdatedRundown env w pid pl))) = cachedINewsData w ++ stories"
  by (simp add: processUpdatedRundown_fetched [OF assms] Let_def processResolvedPlaylist_state
      segmentsToResolve_log_quiet processResolvedPlaylist_quiet split: sum.splits)

lemma processUpdatedRundown_events:
  "\<exists>pa cache ranks ingest changes.
     events_of (fst (processUpdatedRundown env w pid pl)) =
       events_of (emitPlaylistChanges pid pa cache ranks ingest changes)"
proof (cases "fetchINewsStoriesById env pid (uncachedINewsData w pid pl)")
  case (Inl e)
  then have "events_of (fst (processUpdatedRundown env w pid pl)) = []"
    by (simp add: processUpdatedRundown_rejected)
  then show ?thesis using emitPlaylistChanges_nothing by metis
next
  case (Inr stories)
  define reqs where "reqs = fst (ingestCacheRequests (skipCacheForRundown w) (uncachedINewsData w pid pl)
                  (pollAssignments env w pid pl stories))"
  show ?thesis
  proof (cases "await_all (map (\<lambda>(r, ids). GetSegmentsCacheById env r ids) reqs)")
    case (Inl e)
    then have "events_of (fst (processUpdatedRundown env w pid pl)) = []"
      by (simp add: processUpdatedRundown_fetched [OF Inr] Let_def calls_no_events reqs_def
          segmentsToResolve_log_quiet)
    then show ?thesis using emitPlaylistChanges_nothing by metis
  next
    case (Inr caches)
    then show ?thesis
      apply (simp add: processUpdatedRundown_fetched [OF \<open>fetchINewsStoriesById env pid (uncachedINewsData w pid pl) = Inr stories\<close>]
          Let_def calls_no_events reqs_def processResolvedPlaylist_trace
          segmentsToResolve_log_quiet assignedRundowns_log_quiet)
      apply blast
      done
  qed
qed

subsection \<open>One queue, then all queues\<close>

lemma checkINewsRundownById_events:
  "events_of (fst (checkINewsRundownById env w q)) =
     (case downloadRundown env q of
        Inl e \<Rightarrow> []
      | Inr rundown \<Rightarrow>
          if rr_gatewayVersion rundown = gatewayVersion env
          then events_of (fst (processUpdatedRundown env w (rr_externalId rundown) rundown))
          else [])"
  by (simp add: checkINewsRundownById_def split_beta split: sum.splits option.splits)

lemma checkINewsRundownById_statuses: "statuses_of (fst (checkINewsRundownById env w q)) = []"
  by (simp add: checkINewsRundownById_def split_beta processUpdatedRundown_statuses
      split: sum.splits option.splits)

lemma checkINewsRundownById_error:
  "snd (snd (checkINewsRundownById env w q)) =
     (case downloadRundown env q of Inl e \<Rightarrow> Some e | Inr rundown \<Rightarrow> None)"
  by (simp add: checkINewsRundownById_def split_beta split: sum.splits option.splits)

lemma checkINewsRundowns_statuses: "statuses_of (fst (checkINewsRundowns env w qs)) = []"
  by (induction qs arbitrary: w)
     (auto simp: split_beta checkINewsRundownById_statuses split: prod.splits option.splits)

lemma checkINewsRundowns_error:
  "(snd (snd (checkINewsRundowns env w qs)) = None) = (\<forall>q\<in>set qs. \<exists>rd. downloadRundown env q = Inr rd)"
proof (induction qs arbitrary: w)
  case Nil
  show ?case by simp
next
  case (Cons q qs)
  show ?case
  proof (cases "downloadRundown env q")
    case (Inl e)
    then show ?thesis
      using checkINewsRundownById_error [of env w q]
      by (auto split: prod.splits option.splits)
  next
    case (Inr rd)
    then have "snd (snd (checkINewsRundownById env w q)) = None"
      by (simp add: checkINewsRundownById_error)
    then have "snd (snd (checkINewsRundowns env w (q # qs)))
        = snd (snd (checkINewsRundowns env (fst (snd (checkINewsRundownById env w q))) qs))"
      by (simp add: split_beta split: prod.splits option.splits)
    then show ?thesis
      using Inr Cons.IH [of "fst (snd (checkINewsRundownById env w q))"] by simp
  qed
qed

subsection \<open>Which rundowns the events are for\<close>















subsection \<open>The example poll\<close>

lemmas watcher_defs =
  processUpdatedRundown_def uncachedINewsData_def set_add_def segmentsToResolve_def
  segmentsToResolve_log_def resolvePlaylistAssignments_def merge_caches_def
  processResolvedPlaylist_def assignedRundowns_def rundownSegments_def assignedRundowns_log_def
  assignedRanksOf_def recordRanks_def updatePreviousRanks_def emitPlaylistChanges_def
  emitRundownLevel_def emitSegmentLevel_def changesOfType_def deletedRundownStep_def
  createdRundownStep_def updatedRundownStep_def dropCovered_def notOfRundown_def
  playlistRundownToIngestRundown_def playlistRundownToIngestRundown_log_def backTime_log_def
  createdSegmentStep_def changedSegmentStep_def movedSegmentStep_def fallbackRank_def
  inewsToIngestSegment_def List.map_filter_def Let_def

lemmas demo_defs =
  demo_env_def demo_watcher_def demo_listing_def demo_changes_def demo_assignments_def
  empty_watcher_def story_def listed_def

lemma demo_events:
  "events_of (fst (processUpdatedRundown demo_env demo_watcher ''Q'' demo_listing)) =
     [rundown_delete ''Q_3'',
      segment_delete ''Q_1'' ''X'',
      rundown_create ''Q_2''
        \<lparr>ir_externalId = ''Q_2'', ir_name = ''Q'', ir_type = INGEST_RUNDOWN_TYPE,
         ir_segments = [inewsToIngestSegment ''Q_2'' ''E'' (story ''E'' ''l1'') 1],
         ir_payload = \<lparr>rp_playlistExternalId = ''Q'', rp_backTime = None\<rparr>\<rparr>,
      segment_update ''Q_1'' ''B'' (inewsToIngestSegment ''Q_1'' ''B'' (story ''B'' ''l2'') 7),
      segment_create ''Q_1'' ''D'' (inewsToIngestSegment ''Q_1'' ''D'' (story ''D'' ''l1'') 0),
      segment_ranks_update ''Q_1'' [(''C'', 1 / 2)]]"
  by (simp add: watcher_defs demo_defs)

subsection \<open>The status and a queue of another version\<close>

lemma watch_statuses:
  "statuses_of (fst (watch env qs w)) =
     (if \<forall>q\<in>set qs. \<exists>rd. downloadRundown env q = Inr rd
      then (if isConnected env then [(GOOD, [])] else [])
      else [(WARNING_MAJOR, [''Check INews rundows failed''])])"
proof -
  obtain tr w' r where eq: "checkINewsRundowns env w qs = (tr, w', r)"
    by (cases "checkINewsRundowns env w qs") auto
  have quiet: "statuses_of tr = []"
    using checkINewsRundowns_statuses [of env w qs] by (simp add: eq)
  have r: "(r = None) = (\<forall>q\<in>set qs. \<exists>rd. downloadRundown env q = Inr rd)"
    using checkINewsRundowns_error [of env w qs] by (simp add: eq)
  show ?thesis
  proof (cases r)
    case None
    with r have "\<forall>q\<in>set qs. \<exists>rd. downloadRundown env q = Inr rd" by simp
    then show ?thesis
      by (simp add: watch_def eq None quiet)
  next
    case (Some e)
    with r have "\<not> (\<forall>q\<in>set qs. \<exists>rd. downloadRundown env q = Inr rd)" by simp
    then show ?thesis
      by (simp add: watch_def eq Some quiet)
  qed
qed

lemma checkINewsRundowns_append:
  "checkINewsRundowns env w (xs @ ys) =
     (case checkINewsRundowns env w xs of
        (tr, w', Some e) \<Rightarrow> (tr, w', Some e)
      | (tr, w', None) \<Rightarrow>
          (case checkINewsRundowns env w' ys of (tr', w'', r) \<Rightarrow> (tr @ tr', w'', r)))"
  by (induction xs arbitrary: w) (auto split: prod.splits option.splits)

lemma checkINewsRundownById_mismatch:
  "downloadRundown env queue = Inr rundown \<Longrightarrow> rr_gatewayVersion rundown \<noteq> gatewayVersion env
   \<Longrightarrow> checkINewsRundownById env w queue = ([], w, None)"
  by (simp add: checkINewsRundownById_def)

lemma checkINewsRundowns_skip:
  assumes "\<And>w'. checkINewsRundownById env w' queue = ([], w', None)"
  shows "checkINewsRundowns env w (before @ queue # after) = checkINewsRundowns env w (before @ after)"
proof -
  have "checkINewsRundowns env w' (queue # after) = checkINewsRundowns env w' after" for w'
    by (simp add: assms split: prod.splits)
  then show ?thesis
    by (simp only: checkINewsRundowns_append)
qed

subsection \<open>The ids of the story request\<close>

lemma set_add_set [simp]: "set (set_add x xs) = insert x (set xs)"
  by (auto simp: set_add_def)

lemma set_add_distinct [simp]: "distinct (set_add x xs) = distinct xs"
  by (auto simp: set_add_def)



subsection \<open>ResyncRundown and the skip flag\<close>

lemma ResyncRundown_known:
  assumes "playlists w (strip_ordinal rundownId) = Some playlist"
      and "rundowns w rundownId = Some rundown"
      and "ResyncRundown w rundownId = (tr, w')"
  shows "tr = []
       \<and> segments w' = (\<lambda>k. if k \<in> set rundown then None else segments w k)
       \<and> cachedINewsData w' = (\<lambda>k. if k \<in> set rundown then None else cachedINewsData w k)
       \<and> rundowns w' = (rundowns w)(rundownId := None)
       \<and> playlists w' = (playlists w)(strip_ordinal rundownId \<mapsto> filter (\<lambda>r. r \<noteq> rundownId) playlist)
       \<and> cachedPlaylistAssignments w' (strip_ordinal rundownId) =
           map_option (filter (\<lambda>p. pa_rundownId p \<noteq> rundownId))
             (cachedPlaylistAssignments w (strip_ordinal rundownId))
       \<and> (\<forall>p. p \<noteq> strip_ordinal rundownId \<longrightarrow> cachedPlaylistAssignments w' p = cachedPlaylistAssignments w p)
       \<and> lastForcedRankRecalculation w' = (lastForcedRankRecalculation w)(rundownId := None)
       \<and> skipCacheForRundown w' = insert rundownId (skipCacheForRundown w)
       \<and> previousRanks w' = previousRanks w
       \<and> cachedAssignedRundowns w' = cachedAssignedRundowns w"
  using assms
  by (auto simp: ResyncRundown_def Let_def delete_all_apply fun_eq_iff split: option.splits)

lemma ingestCacheRequests_skip:
  "snd (ingestCacheRequests skip uncached pa) = skip - pa_rundownId ` set pa"
  by (induction pa arbitrary: skip) (auto simp: split_beta Let_def)

lemma ingestCacheRequests_count:
  "length (filter (\<lambda>req. fst req = rid) (fst (ingestCacheRequests skip uncached pa)))
     = count_list (map pa_rundownId pa) rid - (if rid \<in> skip then 1 else 0)"
  by (induction pa arbitrary: skip) (auto simp: split_beta Let_def)

lemma ingestCacheRequests_consumed:
  assumes "rid \<in> skip" and "count_list (map pa_rundownId pa) rid = 1"
  shows "rid \<notin> fst ` set (fst (ingestCacheRequests skip uncached pa))
       \<and> rid \<notin> snd (ingestCacheRequests skip uncached pa)"
proof -
  have "filter (\<lambda>req. fst req = rid) (fst (ingestCacheRequests skip uncached pa)) = []"
    using ingestCacheRequests_count [of rid skip uncached pa] assms by simp
  then have "rid \<notin> fst ` set (fst (ingestCacheRequests skip uncached pa))"
    by (auto simp: filter_empty_conv)
  moreover have "rid \<in> pa_rundownId ` set pa"
    using assms(2) by (metis count_list_0_iff set_map zero_neq_one)
  ultimately show ?thesis by (simp add: ingestCacheRequests_skip)
qed

subsection \<open>The poll of an empty queue\<close>

lemma empty_queue_events:
  "events_of (fst (processUpdatedRundown empty_queue_env empty_watcher ''Q'' empty_listing)) =
     [rundown_create ''Q_1''
        \<lparr>ir_externalId = ''Q_1'', ir_name = ''Q'', ir_type = INGEST_RUNDOWN_TYPE, ir_segments = [],
         ir_payload = \<lparr>rp_playlistExternalId = ''Q'', rp_backTime = None\<rparr>\<rparr>]"
  by (simp add: watcher_defs empty_queue_env_def empty_listing_def empty_watcher_def)

subsection \<open>The payloads of the rank updates\<close>





lemma ranksLookup_empty [simp]: "ranksLookup [] r sid = None"
  by (simp add: ranksLookup_def)


subsection \<open>The emitting half on the locals of the example poll\<close>

lemma demo_emit_events:
  "events_of (emitPlaylistChanges ''Q'' demo_assignments demo_cache demo_ranks demo_ingest demo_changes) =
     [rundown_delete ''Q_3'',
      segment_delete ''Q_1'' ''X'',
      rundown_create ''Q_2''
        \<lparr>ir_externalId = ''Q_2'', ir_name = ''Q'', ir_type = INGEST_RUNDOWN_TYPE,
         ir_segments = [inewsToIngestSegment ''Q_2'' ''E'' (story ''E'' ''l1'') 1],
         ir_payload = \<lparr>rp_playlistExternalId = ''Q'', rp_backTime = None\<rparr>\<rparr>,
      segment_update ''Q_1'' ''B'' (inewsToIngestSegment ''Q_1'' ''B'' (story ''B'' ''l2'') 7),
      segment_create ''Q_1'' ''D'' (inewsToIngestSegment ''Q_1'' ''D'' (story ''D'' ''l1'') 0),
      segment_ranks_update ''Q_1'' [(''C'', 1 / 2)]]"
  by (simp add: watcher_defs demo_defs demo_cache_def demo_ranks_def demo_ingest_def)

lemma demo_poll_emits:
  "events_of (fst (processUpdatedRundown demo_env demo_watcher ''Q'' demo_listing)) =
   events_of (emitPlaylistChanges ''Q'' demo_assignments demo_cache demo_ranks demo_ingest demo_changes)"
  by (simp only: demo_events demo_emit_events)

section \<open>ResyncRundown on an unknown rundown\<close>

text \<open>
  C10. If the playlist derived from the rundown id is not in \<open>playlists\<close>, or the rundown
  id is not in \<open>rundowns\<close>, then \<open>ResyncRundown\<close> leaves the watcher as it was (no cache
  entry removed, \<open>skipCacheForRundown\<close> not extended) and its only effect is one logged
  error.
\<close>

theorem ResyncRundown_unknown:
  "playlists w (strip_ordinal rundownId) = None \<or> rundowns w rundownId = None \<Longrightarrow>
   ResyncRundown w rundownId =
     ([Log LogError (''Rundown '' @ rundownId @ '' does not exist in playlist ''
          @ strip_ordinal rundownId)], w)"
  by (auto simp: ResyncRundown_def Let_def split: option.splits)

theorem ResyncRundown_unknown_witness:
  "ResyncRundown empty_watcher ''Q_1'' =
     ([Log LogError ''Rundown Q_1 does not exist in playlist Q''], empty_watcher)"
proof -
  have "playlists empty_watcher (strip_ordinal ''Q_1'') = None \<or> rundowns empty_watcher ''Q_1'' = None"
    by (simp add: empty_watcher_def)
  from ResyncRundown_unknown [OF this] show ?thesis
    by (simp add: strip_ordinal_def is_digit_def)
qed

section \<open>Order of the events of a poll\<close>

text \<open>
  C2. The events that \<open>processUpdatedRundown\<close> emits for a queue, and so the events of one
  \<open>checkINewsRundownById\<close>, come in the order: every \<open>rundown_delete\<close>, then every
  \<open>segment_delete\<close>, then every \<open>rundown_create\<close>, then every \<open>rundown_update\<close>, then
  every \<open>segment_update\<close>, then every \<open>segment_create\<close>, then every
  \<open>segment_ranks_update\<close>. (\<open>event_phase\<close> numbers the kinds in that order.)
\<close>

theorem emit_order:
  "sorted (map event_phase (events_of (fst (processUpdatedRundown env w playlistId playlist))))
   \<and> sorted (map event_phase (events_of (fst (checkINewsRundownById env w queue))))"
proof -
  have a: "sorted (map event_phase (events_of (fst (processUpdatedRundown env w' p pl))))" for w' p pl
    using processUpdatedRundown_events [of env w' p pl] emitPlaylistChanges_order by metis
  show ?thesis
    using a by (simp add: checkINewsRundownById_events split: sum.splits)
qed

theorem emit_order_witness:
  "sorted (map event_phase (events_of (fst (processUpdatedRundown demo_env demo_watcher ''Q'' demo_listing))))
   \<and> map event_phase (events_of (fst (processUpdatedRundown demo_env demo_watcher ''Q'' demo_listing)))
       = [0, 1, 2, 4, 5, 6]"
  using emit_order [of demo_env demo_watcher "''Q''" demo_listing "''Q''"]
  by (simp add: demo_events)

section \<open>Segments of created and updated rundowns\<close>



section \<open>A listing of another gateway version\<close>

text \<open>
  C1, as the code has it. If the downloaded listing of a queue carries a
  \<open>gatewayVersion\<close> other than the configured one, \<open>checkINewsRundownById\<close> has no
  effect at all (no event, no request, no log) and returns the watcher unchanged, so
  every cache is as before; a poll over any list of queues runs as if that queue were
  not in the list; and a poll of that queue alone emits nothing, leaves the watcher
  unchanged and sets the status \<open>GOOD\<close> exactly when the handler is connected (it sets
  no status when the handler is not connected).
\<close>

theorem version_mismatch_ignored:
  assumes "downloadRundown env queue = Inr rundown"
      and "rr_gatewayVersion rundown \<noteq> gatewayVersion env"
  shows "checkINewsRundownById env w queue = ([], w, None)
       \<and> watch env (before @ queue # after) w = watch env (before @ after) w
       \<and> events_of (fst (watch env [queue] w)) = []
       \<and> snd (watch env [queue] w) = w
       \<and> statuses_of (fst (watch env [queue] w)) = (if isConnected env then [(GOOD, [])] else [])"
proof -
  have skip: "checkINewsRundownById env w' queue = ([], w', None)" for w'
    using assms by (rule checkINewsRundownById_mismatch)
  have "watch env (before @ queue # after) w = watch env (before @ after) w"
    unfolding watch_def by (simp only: checkINewsRundowns_skip [of env queue, OF skip])
  moreover have "checkINewsRundowns env w [queue] = ([], w, None)"
    by (simp add: skip)
  then have "events_of (fst (watch env [queue] w)) = [] \<and> snd (watch env [queue] w) = w"
    by (simp add: watch_def)
  moreover have "statuses_of (fst (watch env [queue] w)) = (if isConnected env then [(GOOD, [])] else [])"
    using assms(1) by (simp add: watch_statuses)
  ultimately show ?thesis using skip by simp
qed

theorem version_mismatch_ignored_witness:
  "checkINewsRundownById (demo_env\<lparr>gatewayVersion := ''v2''\<rparr>) demo_watcher ''Q'' = ([], demo_watcher, None)
   \<and> snd (watch (demo_env\<lparr>gatewayVersion := ''v2''\<rparr>) [''Q''] demo_watcher) = demo_watcher
   \<and> statuses_of (fst (watch (demo_env\<lparr>gatewayVersion := ''v2''\<rparr>) [''Q''] demo_watcher)) = [(GOOD, [])]"
proof -
  have a: "downloadRundown (demo_env\<lparr>gatewayVersion := ''v2''\<rparr>) ''Q'' = Inr demo_listing"
    by (simp add: demo_env_def)
  have b: "rr_gatewayVersion demo_listing \<noteq> gatewayVersion (demo_env\<lparr>gatewayVersion := ''v2''\<rparr>)"
    by (simp add: demo_listing_def)
  have c: "isConnected (demo_env\<lparr>gatewayVersion := ''v2''\<rparr>)"
    by (simp add: demo_env_def)
  show ?thesis
    using version_mismatch_ignored [OF a b, of demo_watcher "[''P'']" "[]"] c by simp
qed

text \<open>
  The claim as stated fails when the handler is not connected: the poll of a queue with
  another version then reports no status, so it does not report \<open>GOOD\<close>.
\<close>

theorem version_mismatch_counterexample:
  "downloadRundown demo_other_version ''Q'' = Inr demo_listing
   \<and> rr_gatewayVersion demo_listing \<noteq> gatewayVersion demo_other_version
   \<and> statuses_of (fst (watch demo_other_version [''Q''] demo_watcher)) = []"
proof -
  have a: "downloadRundown demo_other_version ''Q'' = Inr demo_listing"
      and b: "rr_gatewayVersion demo_listing \<noteq> gatewayVersion demo_other_version"
      and c: "\<not> isConnected demo_other_version"
    by (simp_all add: demo_other_version_def demo_env_def demo_listing_def)
  have "\<forall>q\<in>set [''Q'']. \<exists>rd. downloadRundown demo_other_version q = Inr rd"
    using a by simp
  then have "statuses_of (fst (watch demo_other_version [''Q''] demo_watcher)) = []"
    using c by (simp only: watch_statuses if_P if_not_P if_False if_True)
  with a b show ?thesis by simp
qed

section \<open>The status after a poll\<close>




section \<open>The stories a poll fetches\<close>




section \<open>An empty resolution\<close>

text \<open>
  C4. When the story request of a poll of playlist \<open>p\<close> succeeds and
  \<open>ResolveRundownIntoPlaylist\<close> returns the empty list, the poll goes on with exactly one
  rundown, with id \<open>p_1\<close>, no segments and no back time. Provided the control-plane
  request for that rundown is not made (the rundown is in \<open>skipCacheForRundown\<close>) or
  succeeds, \<open>processUpdatedRundown\<close> does not throw, asks the control plane at most for
  \<open>(p_1, [])\<close>, and leaves \<open>playlists[p] = [p_1]\<close>, \<open>rundowns[p_1] = []\<close>, the cached
  playlist assignment and the cached assigned rundowns of \<open>p\<close> holding that one empty
  rundown.
\<close>

theorem empty_resolution:
  assumes "fetchINewsStoriesById env playlistId (uncachedINewsData w playlistId playlist) = Inr stories"
      and "ResolveRundownIntoPlaylist env playlistId
             (segmentsToResolve (cachedINewsData w ++ stories) playlist) = []"
      and "playlistId @ ''_1'' \<in> skipCacheForRundown w
           \<or> GetSegmentsCacheById env (playlistId @ ''_1'') [] = Inr cache"
  shows "pollAssignments env w playlistId playlist stories
           = [\<lparr>pa_rundownId = playlistId @ ''_1'', pa_segments = [], pa_backTime = None\<rparr>]
       \<and> snd (snd (processUpdatedRundown env w playlistId playlist)) = None
       \<and> core_cache_requests (fst (processUpdatedRundown env w playlistId playlist))
           = (if playlistId @ ''_1'' \<in> skipCacheForRundown w then [] else [(playlistId @ ''_1'', [])])
       \<and> playlists (fst (snd (processUpdatedRundown env w playlistId playlist))) playlistId
           = Some [playlistId @ ''_1'']
       \<and> rundowns (fst (snd (processUpdatedRundown env w playlistId playlist))) (playlistId @ ''_1'')
           = Some []
       \<and> cachedPlaylistAssignments (fst (snd (processUpdatedRundown env w playlistId playlist))) playlistId
           = Some [\<lparr>pa_rundownId = playlistId @ ''_1'', pa_segments = [], pa_backTime = None\<rparr>]
       \<and> cachedAssignedRundowns (fst (snd (processUpdatedRundown env w playlistId playlist))) playlistId
           = Some [\<lparr>nr_externalId = playlistId @ ''_1'', nr_name = playlistId @ ''_1'',
                    nr_gatewayVersion = gatewayVersion env, nr_segments = [], nr_backTime = None\<rparr>]"
proof -
  have pa: "pollAssignments env w playlistId playlist stories
           = [\<lparr>pa_rundownId = playlistId @ ''_1'', pa_segments = [], pa_backTime = None\<rparr>]"
    by (simp add: pollAssignments_def resolvePlaylistAssignments_def assms(2))
  show ?thesis
  proof (cases "playlistId @ ''_1'' \<in> skipCacheForRundown w")
    case True
    then show ?thesis
      by (simp add: processUpdatedRundown_fetched [OF assms(1)] pa Let_def
          processResolvedPlaylist_state processResolvedPlaylist_quiet segmentsToResolve_log_quiet
          assignedRundowns_def rundownSegments_def List.map_filter_def)
  next
    case False
    with assms(3) have "GetSegmentsCacheById env (playlistId @ ''_1'') [] = Inr cache" by simp
    with False show ?thesis
      by (simp add: processUpdatedRundown_fetched [OF assms(1)] pa Let_def
          processResolvedPlaylist_state processResolvedPlaylist_quiet segmentsToResolve_log_quiet
          assignedRundowns_def rundownSegments_def List.map_filter_def)
  qed
qed

theorem empty_resolution_witness:
  "pollAssignments empty_queue_env empty_watcher ''Q'' empty_listing Map.empty
     = [\<lparr>pa_rundownId = ''Q_1'', pa_segments = [], pa_backTime = None\<rparr>]
   \<and> snd (snd (processUpdatedRundown empty_queue_env empty_watcher ''Q'' empty_listing)) = None
   \<and> playlists (fst (snd (processUpdatedRundown empty_queue_env empty_watcher ''Q'' empty_listing))) ''Q''
       = Some [''Q_1'']
   \<and> rundowns (fst (snd (processUpdatedRundown empty_queue_env empty_watcher ''Q'' empty_listing))) ''Q_1''
       = Some []"
proof -
  have h1: "fetchINewsStoriesById empty_queue_env ''Q''
              (uncachedINewsData empty_watcher ''Q'' empty_listing) = Inr Map.empty"
    by (simp add: empty_queue_env_def)
  have h2: "ResolveRundownIntoPlaylist empty_queue_env ''Q''
              (segmentsToResolve (cachedINewsData empty_watcher ++ Map.empty) empty_listing) = []"
    by (simp add: empty_queue_env_def)
  have h3: "''Q'' @ ''_1'' \<in> skipCacheForRundown empty_watcher
            \<or> GetSegmentsCacheById empty_queue_env (''Q'' @ ''_1'') [] = Inr Map.empty"
    by (simp add: empty_queue_env_def)
  show ?thesis
    using empty_resolution [OF h1 h2 h3] by simp
qed

section \<open>ResyncRundown on a known rundown, and the poll after it\<close>

text \<open>
  C8. If \<open>playlists\<close> has the playlist derived from the rundown id and \<open>rundowns\<close> has
  the rundown, \<open>ResyncRundown\<close> logs nothing, removes the rundown's segments from
  \<open>segments\<close> and \<open>cachedINewsData\<close>, removes the rundown from \<open>rundowns\<close>, from its
  playlist's list in \<open>playlists\<close> and from the cached playlist assignment of that
  playlist, clears its entry of \<open>lastForcedRankRecalculation\<close> and adds it to
  \<open>skipCacheForRundown\<close>. In the next \<open>processUpdatedRundown\<close> whose story request
  succeeds and whose resolved playlist lists the rundown (once), the rundown is taken
  out of \<open>skipCacheForRundown\<close> and no \<open>GetSegmentsCacheById\<close> call is made for it.
\<close>

theorem resync_then_poll:
  assumes "playlists w (strip_ordinal rundownId) = Some playlist"
      and "rundowns w rundownId = Some rundown"
      and "fetchINewsStoriesById env playlistId
             (uncachedINewsData (snd (ResyncRundown w rundownId)) playlistId listing) = Inr stories"
      and "count_list (map pa_rundownId
             (pollAssignments env (snd (ResyncRundown w rundownId)) playlistId listing stories)) rundownId = 1"
  shows "fst (ResyncRundown w rundownId) = []
       \<and> segments (snd (ResyncRundown w rundownId))
           = (\<lambda>k. if k \<in> set rundown then None else segments w k)
       \<and> cachedINewsData (snd (ResyncRundown w rundownId))
           = (\<lambda>k. if k \<in> set rundown then None else cachedINewsData w k)
       \<and> rundowns (snd (ResyncRundown w rundownId)) = (rundowns w)(rundownId := None)
       \<and> playlists (snd (ResyncRundown w rundownId))
           = (playlists w)(strip_ordinal rundownId \<mapsto> filter (\<lambda>r. r \<noteq> rundownId) playlist)
       \<and> cachedPlaylistAssignments (snd (ResyncRundown w rundownId)) (strip_ordinal rundownId)
           = map_option (filter (\<lambda>p. pa_rundownId p \<noteq> rundownId))
               (cachedPlaylistAssignments w (strip_ordinal rundownId))
       \<and> lastForcedRankRecalculation (snd (ResyncRundown w rundownId))
           = (lastForcedRankRecalculation w)(rundownId := None)
       \<and> skipCacheForRundown (snd (ResyncRundown w rundownId))
           = insert rundownId (skipCacheForRundown w)
       \<and> rundownId \<notin> skipCacheForRundown
           (fst (snd (processUpdatedRundown env (snd (ResyncRundown w rundownId)) playlistId listing)))
       \<and> rundownId \<notin> fst ` set (core_cache_requests
           (fst (processUpdatedRundown env (snd (ResyncRundown w rundownId)) playlistId listing)))"
proof -
  let ?w = "snd (ResyncRundown w rundownId)"
  have resync: "ResyncRundown w rundownId = (fst (ResyncRundown w rundownId), ?w)" by simp
  note a = ResyncRundown_known [OF assms(1) assms(2) resync]
  have "rundownId \<in> skipCacheForRundown ?w" using a by simp
  from ingestCacheRequests_consumed [OF this assms(4)]
  have "rundownId \<notin> skipCacheForRundown (fst (snd (processUpdatedRundown env ?w playlistId listing)))
      \<and> rundownId \<notin> fst ` set (core_cache_requests (fst (processUpdatedRundown env ?w playlistId listing)))"
    by (simp add: processUpdatedRundown_core_requests [OF assms(3)])
  with a show ?thesis by simp
qed

theorem resync_then_poll_witness:
  "skipCacheForRundown (snd (ResyncRundown demo_watcher ''Q_1'')) = {''Q_1''}
   \<and> rundowns (snd (ResyncRundown demo_watcher ''Q_1'')) ''Q_1'' = None
   \<and> playlists (snd (ResyncRundown demo_watcher ''Q_1'')) ''Q'' = Some [''Q_3'']
   \<and> ''Q_1'' \<notin> skipCacheForRundown
        (fst (snd (processUpdatedRundown demo_env (snd (ResyncRundown demo_watcher ''Q_1'')) ''Q'' demo_listing)))
   \<and> ''Q_1'' \<notin> fst ` set (core_cache_requests
        (fst (processUpdatedRundown demo_env (snd (ResyncRundown demo_watcher ''Q_1'')) ''Q'' demo_listing)))"
proof -
  have s: "strip_ordinal ''Q_1'' = ''Q''"
    by (simp add: strip_ordinal_def is_digit_def)
  have h1: "playlists demo_watcher (strip_ordinal ''Q_1'') = Some [''Q_1'', ''Q_3'']"
    unfolding s by (simp add: demo_watcher_def empty_watcher_def)
  have h2: "rundowns demo_watcher ''Q_1'' = Some [''B'', ''C'', ''X'']"
    by (simp add: demo_watcher_def empty_watcher_def)
  have h3: "fetchINewsStoriesById demo_env ''Q''
              (uncachedINewsData (snd (ResyncRundown demo_watcher ''Q_1'')) ''Q'' demo_listing)
            = Inr [''B'' \<mapsto> story ''B'' ''l2'', ''D'' \<mapsto> story ''D'' ''l1'', ''E'' \<mapsto> story ''E'' ''l1'']"
    by (simp add: demo_env_def)
  have h4: "count_list (map pa_rundownId
              (pollAssignments demo_env (snd (ResyncRundown demo_watcher ''Q_1'')) ''Q'' demo_listing
                 [''B'' \<mapsto> story ''B'' ''l2'', ''D'' \<mapsto> story ''D'' ''l1'', ''E'' \<mapsto> story ''E'' ''l1'']))
              ''Q_1'' = 1"
    by (simp add: pollAssignments_def resolvePlaylistAssignments_def demo_env_def demo_assignments_def)
  have e: "skipCacheForRundown demo_watcher = {}"
    by (simp add: demo_watcher_def empty_watcher_def)
  show ?thesis
    using resync_then_poll [OF h1 h2 h3 h4] by (simp add: s e)
qed

section \<open>Rank updates\<close>



section \<open>Segments without an assigned rank\<close>




end
